theory Spec2Isabelle
  imports Main "HOL-Library.Word"
begin

section \<open>Machine integers, bytes and strings\<close>

text \<open>
  Go's fixed-width integers are words. \<open>uintptr\<close> is taken at its width on the 64-bit
  platforms, \<open>int\<close> (a slice length, a loop index) is a natural number, and the
  \<open>int64\<close> that \<open>Seek\<close> receives is the two's-complement reading \<open>sint\<close> of a
  \<open>uintptr\<close>. A Go string is its sequence of bytes.
\<close>

type_synonym byte = "8 word"
type_synonym uint16 = "16 word"
type_synonym uint32 = "32 word"
type_synonym uintptr = "64 word"

text \<open>
  Samples. \<open>int16\<close> and \<open>int32\<close> are words in two's complement; a \<open>float32\<close> sample
  is held as the 32-bit IEEE-754 pattern that \<open>binary.Write\<close> emits for it.
\<close>

type_synonym int16 = "16 word"
type_synonym int32 = "32 word"
type_synonym float32 = "32 word"

definition string_bytes :: "string \<Rightarrow> byte list" where
  "string_bytes s = map of_char s"

definition zeros :: "nat \<Rightarrow> byte list" where
  "zeros n = replicate n 0"

text \<open>
  The builtin \<open>copy(dst[:], src)\<close> on a byte array: it copies
  \<open>min (len dst) (len src)\<close> bytes to the front of \<open>dst\<close> and leaves the rest of
  \<open>dst\<close> as it was.
\<close>

definition copy :: "byte list \<Rightarrow> string \<Rightarrow> byte list" where
  "copy dst src = take (length dst) (string_bytes src) @ drop (length src) dst"

text \<open>Little-endian encodings of \<open>encoding/binary\<close>.\<close>

definition le16 :: "16 word \<Rightarrow> byte list" where
  "le16 w = [ucast w, ucast (drop_bit 8 w)]"

definition le32 :: "32 word \<Rightarrow> byte list" where
  "le32 w = [ucast w, ucast (drop_bit 8 w), ucast (drop_bit 16 w), ucast (drop_bit 24 w)]"

section \<open>Record layouts (package ldfile)\<close>

text \<open>
  Each struct is a record of its named fields; a byte array is a list of its length. The
  blank fields \<open>_\<close> carry no value: \<open>binary.Write\<close> writes zeros for them, and
  \<open>binary.Size\<close> counts them. Field names that several structs share are prefixed
  with the struct they belong to.
\<close>

record LdFileHead =
  LDMarker :: uint32
  ChannelsMetaPointer :: uint32
  ChannelsDataPointer :: uint32
  EventPointer :: uint32
  Unknown1 :: uint16
  Unknown2 :: uint16
  Unknown3 :: uint16
  DeviceSerial :: uint32
  DeviceType :: "byte list"
  DeviceVersion :: uint16
  Unknown4 :: uint16
  ChannelsCount :: uint32
  Head_Date :: "byte list"
  Head_Time :: "byte list"
  Head_Driver :: "byte list"
  Head_Vehicle :: "byte list"
  Head_Venue :: "byte list"
  EnableProLogging :: uint32
  Head_ShortComment :: "byte list"

record LdFileEvent =
  Event_Name :: "byte list"
  Event_Session :: "byte list"
  Event_Comment :: "byte list"
  VenuePointer :: uint16

record LdFileVenue =
  Venue_Name :: "byte list"
  VehiclePointer :: uint16

record LdFileVehicle =
  Vehicle_Id :: "byte list"
  Weight :: uint32
  Vehicle_Type :: "byte list"
  Vehicle_Comment :: "byte list"

record LdFileChannelMeta =
  PreviousMetaPointer :: uint32
  NextMetaPointer :: uint32
  DataPointer :: uint32
  DataLength :: uint32
  ChannelId :: uint16
  Meta_DataType :: uint16
  Meta_DataTypeLength :: uint16
  Meta_Frequency :: uint16
  Shift :: int16
  Mul :: int16
  Scale :: int16
  DecPlaces :: int16
  Meta_Name :: "byte list"
  Meta_ShortName :: "byte list"
  Meta_Unit :: "byte list"

record DataType =
  DataType :: uint16
  DataTypeLength :: uint16

definition DataTypeFloat16 :: DataType where
  "DataTypeFloat16 = \<lparr>DataType = 0x07, DataTypeLength = 2\<rparr>"

definition DataTypeFloat32 :: DataType where
  "DataTypeFloat32 = \<lparr>DataType = 0x07, DataTypeLength = 4\<rparr>"

definition DataTypeInt16 :: DataType where
  "DataTypeInt16 = \<lparr>DataType = 0x03, DataTypeLength = 2\<rparr>"

definition DataTypeInt32 :: DataType where
  "DataTypeInt32 = \<lparr>DataType = 0x05, DataTypeLength = 4\<rparr>"

subsection \<open>\<open>binary.Size\<close> and \<open>binary.Write\<close> of the five structs\<close>

definition LdFileHead_Size :: nat where
  "LdFileHead_Size = 4 + 4 + 4 + 4 + 20 + 4 + 24 + 2 + 2 + 2 + 4 + 8 + 2 + 2 + 4 + 4
     + 16 + 16 + 16 + 16 + 64 + 64 + 64 + 64 + 64 + 1024 + 4 + 66 + 64 + 126"

definition LdFileEvent_Size :: nat where
  "LdFileEvent_Size = 64 + 64 + 1024 + 2"

definition LdFileVenue_Size :: nat where
  "LdFileVenue_Size = 64 + 1034 + 2"

definition LdFileVehicle_Size :: nat where
  "LdFileVehicle_Size = 64 + 128 + 4 + 32 + 32"

definition LdFileChannelMeta_Size :: nat where
  "LdFileChannelMeta_Size = 4 + 4 + 4 + 4 + 2 + 2 + 2 + 2 + 2 + 2 + 2 + 2 + 32 + 8 + 12 + 40"

definition encode_head :: "LdFileHead \<Rightarrow> byte list" where
  "encode_head h =
     le32 (LDMarker h) @ zeros 4 @ le32 (ChannelsMetaPointer h) @ le32 (ChannelsDataPointer h)
     @ zeros 20 @ le32 (EventPointer h) @ zeros 24
     @ le16 (Unknown1 h) @ le16 (Unknown2 h) @ le16 (Unknown3 h) @ le32 (DeviceSerial h)
     @ DeviceType h @ le16 (DeviceVersion h) @ le16 (Unknown4 h) @ le32 (ChannelsCount h)
     @ zeros 4 @ Head_Date h @ zeros 16 @ Head_Time h @ zeros 16
     @ Head_Driver h @ Head_Vehicle h @ zeros 64 @ Head_Venue h @ zeros 64 @ zeros 1024
     @ le32 (EnableProLogging h) @ zeros 66 @ Head_ShortComment h @ zeros 126"

definition encode_event :: "LdFileEvent \<Rightarrow> byte list" where
  "encode_event e =
     Event_Name e @ Event_Session e @ Event_Comment e @ le16 (VenuePointer e)"

definition encode_venue :: "LdFileVenue \<Rightarrow> byte list" where
  "encode_venue v = Venue_Name v @ zeros 1034 @ le16 (VehiclePointer v)"

definition encode_vehicle :: "LdFileVehicle \<Rightarrow> byte list" where
  "encode_vehicle v =
     Vehicle_Id v @ zeros 128 @ le32 (Weight v) @ Vehicle_Type v @ Vehicle_Comment v"

definition encode_meta :: "LdFileChannelMeta \<Rightarrow> byte list" where
  "encode_meta m =
     le32 (PreviousMetaPointer m) @ le32 (NextMetaPointer m) @ le32 (DataPointer m)
     @ le32 (DataLength m) @ le16 (ChannelId m) @ le16 (Meta_DataType m)
     @ le16 (Meta_DataTypeLength m) @ le16 (Meta_Frequency m)
     @ le16 (Shift m) @ le16 (Mul m) @ le16 (Scale m) @ le16 (DecPlaces m)
     @ Meta_Name m @ Meta_ShortName m @ Meta_Unit m @ zeros 40"

section \<open>The file descriptor\<close>

text \<open>
  \<open>*os.File\<close> is outside the repository. It is modelled as a regular file opened for
  writing: its bytes (a byte never written reads as zero, as in a hole), its length, the
  current offset, and the history of the calls made on it with their outcome. Whether
  the \<open>n\<close>-th call fails is given by \<open>faulty\<close>; a failed call changes nothing but the
  history. A write of no bytes does not extend the file.
\<close>

datatype os_error = PathError

datatype call = Seek_call int bool | Write_call "byte list" bool

record os_File =
  contents :: "nat \<Rightarrow> byte"
  extent :: nat
  position :: nat
  faulty :: "nat \<Rightarrow> bool"
  history :: "call list"

definition os_Write :: "os_File \<Rightarrow> byte list \<Rightarrow> os_File \<times> os_error option" where
  "os_Write fd b =
     (if faulty fd (length (history fd))
      then (fd\<lparr>history := history fd @ [Write_call b False]\<rparr>, Some PathError)
      else (fd\<lparr>contents := (\<lambda>a. if position fd \<le> a \<and> a < position fd + length b
                                  then b ! (a - position fd) else contents fd a),
                extent := (if b = [] then extent fd
                           else max (extent fd) (position fd + length b)),
                position := position fd + length b,
                history := history fd @ [Write_call b True]\<rparr>, None))"

text \<open>\<open>fd.Seek(offset, 0)\<close>: a negative offset is an error.\<close>

definition os_Seek :: "os_File \<Rightarrow> int \<Rightarrow> os_File \<times> os_error option" where
  "os_Seek fd off =
     (if faulty fd (length (history fd)) \<or> off < 0
      then (fd\<lparr>history := history fd @ [Seek_call off False]\<rparr>, Some PathError)
      else (fd\<lparr>position := nat off,
                history := history fd @ [Seek_call off True]\<rparr>, None))"

text \<open>The file \<open>os.Create\<close> returns: empty, at offset 0, and never failing.\<close>

definition created :: os_File where
  "created = \<lparr>contents = (\<lambda>a. 0), extent = 0, position = 0,
              faulty = (\<lambda>n. False), history = []\<rparr>"

definition read_at :: "os_File \<Rightarrow> nat \<Rightarrow> nat \<Rightarrow> byte list" where
  "read_at fd off n = map (contents fd) [off ..< off + n]"

section \<open>The File aggregate and its channels\<close>

text \<open>
  \<open>time.Time\<close> belongs to the standard library; \<open>File.Write\<close> uses only the two
  texts that \<open>Format\<close> yields for its layouts, and the value is held as these.
\<close>

record time_Time =
  Format_02_01_2006 :: string
  Format_15_04_05 :: string

text \<open>
  \<open>Channel[T]\<close>. \<open>Data\<close> is a pointer to a slice: \<open>None\<close> is the nil pointer.
\<close>

record 'a Channel =
  Frequency :: uint16
  Name :: string
  ShortName :: string
  Unit :: string
  Data :: "'a list option"

text \<open>
  An element of \<open>Channels []interface{}\<close>: a pointer to one of the three instances of
  \<open>Channel\<close> (\<open>None\<close> is the nil pointer of that type), or a value of any other
  dynamic type.
\<close>

datatype element =
  Float32Channel "float32 Channel option"
  | Int16Channel "int16 Channel option"
  | Int32Channel "int32 Channel option"
  | Other

record File =
  Time :: time_Time
  Driver :: string
  Vehicle :: string
  Venue :: string
  ShortComment :: string
  EventName :: string
  EventSession :: string
  EventComment :: string
  VehicleId :: string
  VehicleWeight :: uint32
  VehicleType :: string
  VehicleComment :: string
  Channels :: "element list"

definition AddChannels :: "File \<Rightarrow> element list \<Rightarrow> File" where
  "AddChannels f channels = f\<lparr>Channels := Channels f @ channels\<rparr>"

section \<open>File.Write\<close>

subsection \<open>The pointers\<close>

definition headerSize :: uintptr where
  "headerSize = of_nat LdFileHead_Size"

definition eventSize :: uintptr where
  "eventSize = of_nat LdFileEvent_Size"

definition venueSize :: uintptr where
  "venueSize = of_nat LdFileVenue_Size"

definition vehicleSize :: uintptr where
  "vehicleSize = of_nat LdFileVehicle_Size"

definition channelMetaSize :: uintptr where
  "channelMetaSize = of_nat LdFileChannelMeta_Size"

definition eventPointer :: uintptr where
  "eventPointer = headerSize"

definition venuePointer :: uintptr where
  "venuePointer = eventPointer + eventSize"

definition vehiclePointer :: uintptr where
  "vehiclePointer = venuePointer + venueSize"

definition channelsMetaPointer :: uintptr where
  "channelsMetaPointer = vehiclePointer + vehicleSize"

definition channelsDataPointer :: "File \<Rightarrow> uintptr" where
  "channelsDataPointer f =
     channelsMetaPointer + channelMetaSize * of_nat (length (Channels f))"

subsection \<open>The four leading records\<close>

definition File_head :: "File \<Rightarrow> LdFileHead" where
  "File_head f =
     (let head = \<lparr>LDMarker = 0x40,
                  ChannelsMetaPointer = ucast channelsMetaPointer,
                  ChannelsDataPointer = ucast (channelsDataPointer f),
                  EventPointer = ucast eventPointer,
                  Unknown1 = 1,
                  Unknown2 = 0x4240,
                  Unknown3 = 0xF,
                  DeviceSerial = 0x1F44,
                  DeviceType = [0x41, 0x44, 0x4C, 0, 0, 0, 0, 0],
                  DeviceVersion = 420,
                  Unknown4 = 0xADB0,
                  ChannelsCount = of_nat (length (Channels f)),
                  Head_Date = zeros 16,
                  Head_Time = zeros 16,
                  Head_Driver = zeros 64,
                  Head_Vehicle = zeros 64,
                  Head_Venue = zeros 64,
                  EnableProLogging = 0xC81A4,
                  Head_ShortComment = zeros 64\<rparr>;
          date = Format_02_01_2006 (Time f);
          hour = Format_15_04_05 (Time f);
          head = head\<lparr>Head_Date := copy (Head_Date head) date\<rparr>;
          head = head\<lparr>Head_Time := copy (Head_Time head) hour\<rparr>;
          head = head\<lparr>Head_Driver := copy (Head_Driver head) (Driver f)\<rparr>;
          head = head\<lparr>Head_Vehicle := copy (Head_Vehicle head) (Vehicle f)\<rparr>;
          head = head\<lparr>Head_Venue := copy (Head_Venue head) (Venue f)\<rparr>;
          head = head\<lparr>Head_ShortComment := copy (Head_ShortComment head) (ShortComment f)\<rparr>
      in head)"

definition File_event :: "File \<Rightarrow> LdFileEvent" where
  "File_event f =
     (let event = \<lparr>Event_Name = zeros 64, Event_Session = zeros 64,
                   Event_Comment = zeros 1024, VenuePointer = ucast venuePointer\<rparr>;
          event = event\<lparr>Event_Name := copy (Event_Name event) (EventName f)\<rparr>;
          event = event\<lparr>Event_Session := copy (Event_Session event) (EventSession f)\<rparr>;
          event = event\<lparr>Event_Comment := copy (Event_Comment event) (EventComment f)\<rparr>
      in event)"

definition File_venue :: "File \<Rightarrow> LdFileVenue" where
  "File_venue f =
     (let venue = \<lparr>Venue_Name = zeros 64, VehiclePointer = ucast vehiclePointer\<rparr>;
          venue = venue\<lparr>Venue_Name := copy (Venue_Name venue) (Venue f)\<rparr>
      in venue)"

definition File_vehicle :: "File \<Rightarrow> LdFileVehicle" where
  "File_vehicle f =
     (let vehicle = \<lparr>Vehicle_Id = zeros 64, Weight = VehicleWeight f,
                     Vehicle_Type = zeros 32, Vehicle_Comment = zeros 32\<rparr>;
          vehicle = vehicle\<lparr>Vehicle_Id := copy (Vehicle_Id vehicle) (VehicleId f)\<rparr>;
          vehicle = vehicle\<lparr>Vehicle_Type := copy (Vehicle_Type vehicle) (VehicleType f)\<rparr>;
          vehicle = vehicle\<lparr>Vehicle_Comment := copy (Vehicle_Comment vehicle) (VehicleComment f)\<rparr>
      in vehicle)"

subsection \<open>Channel.Write\<close>

text \<open>
  The type argument of \<open>Channel[T]\<close>. The type switch of \<open>Channel.Write\<close> selects the
  data type by it, and \<open>binary.Write\<close> encodes a sample of that type with \<open>put\<close>.
\<close>

datatype type_arg = T_float32 | T_int16 | T_int32

datatype panic = NilPointerDereference

definition Channel_dataType :: "type_arg \<Rightarrow> DataType" where
  "Channel_dataType T =
     (case T of T_float32 \<Rightarrow> DataTypeFloat32
      | T_int16 \<Rightarrow> DataTypeInt16
      | T_int32 \<Rightarrow> DataTypeInt32)"

definition previousMetaPointer :: "uint16 \<Rightarrow> uintptr \<Rightarrow> uintptr" where
  "previousMetaPointer n metaPointer =
     (if n > 0 then metaPointer + channelMetaSize * ucast (n - 1) else 0)"

definition nextMetaPointer :: "uint16 \<Rightarrow> uint32 \<Rightarrow> uintptr \<Rightarrow> uintptr" where
  "nextMetaPointer n channelsCount metaPointer =
     (if n < ucast (channelsCount - 1) then metaPointer + channelMetaSize * ucast (n + 1)
      else 0)"

definition currentMetaPointer :: "uint16 \<Rightarrow> uintptr \<Rightarrow> uintptr" where
  "currentMetaPointer n metaPointer = metaPointer + channelMetaSize * ucast n"

definition channelMeta ::
  "type_arg \<Rightarrow> 'a Channel \<Rightarrow> 'a list \<Rightarrow> uint16 \<Rightarrow> uint32 \<Rightarrow> uintptr \<Rightarrow> uintptr
   \<Rightarrow> LdFileChannelMeta" where
  "channelMeta T c data n channelsCount metaPointer currentDataPointer =
     (let dataType = Channel_dataType T;
          m = \<lparr>PreviousMetaPointer = ucast (previousMetaPointer n metaPointer),
               NextMetaPointer = ucast (nextMetaPointer n channelsCount metaPointer),
               DataPointer = ucast currentDataPointer,
               DataLength = of_nat (length data),
               ChannelId = 0x2EE1 + n,
               Meta_DataType = DataType dataType,
               Meta_DataTypeLength = DataTypeLength dataType,
               Meta_Frequency = Frequency c,
               Shift = 0,
               Mul = 1,
               Scale = 1,
               DecPlaces = 0,
               Meta_Name = zeros 32,
               Meta_ShortName = zeros 8,
               Meta_Unit = zeros 12\<rparr>;
          m = m\<lparr>Meta_Name := copy (Meta_Name m) (Name c)\<rparr>;
          m = m\<lparr>Meta_ShortName := copy (Meta_ShortName m) (ShortName c)\<rparr>;
          m = m\<lparr>Meta_Unit := copy (Meta_Unit m) (Unit c)\<rparr>
      in m)"

text \<open>
  The receiver or its \<open>Data\<close> being nil, \<open>len(*c.Data)\<close> panics before any call on
  the descriptor. The errors that \<open>Seek\<close> and \<open>binary.Write\<close> return are dropped.
\<close>

definition Channel_Write ::
  "type_arg \<Rightarrow> ('a \<Rightarrow> byte list) \<Rightarrow> 'a Channel option \<Rightarrow> os_File \<Rightarrow> uint16 \<Rightarrow> uint32
   \<Rightarrow> uintptr \<Rightarrow> uintptr \<Rightarrow> (panic + uintptr) \<times> os_File" where
  "Channel_Write T put c fd n channelsCount metaPointer currentDataPointer =
     (case c of
        None \<Rightarrow> (Inl NilPointerDereference, fd)
      | Some ch \<Rightarrow>
          (case Data ch of
             None \<Rightarrow> (Inl NilPointerDereference, fd)
           | Some data \<Rightarrow>
               (let m = channelMeta T ch data n channelsCount metaPointer currentDataPointer;
                    binaryData = concat (map put data);
                    fd = fst (os_Seek fd (sint (currentMetaPointer n metaPointer)));
                    fd = fst (os_Write fd (encode_meta m));
                    fd = fst (os_Seek fd (sint currentDataPointer));
                    fd = fst (os_Write fd binaryData);
                    nextDataPointer = currentDataPointer + of_nat (length binaryData)
                in (Inr nextDataPointer, fd))))"

subsection \<open>The loop over the channels\<close>

text \<open>
  The type switch of the loop body: an element of no listed type matches no case, and
  the running data pointer stays.
\<close>

definition element_Write ::
  "element \<Rightarrow> os_File \<Rightarrow> nat \<Rightarrow> uint32 \<Rightarrow> uintptr \<Rightarrow> uintptr
   \<Rightarrow> (panic + uintptr) \<times> os_File" where
  "element_Write channel fd i channelsCount metaPointer currentDataPointer =
     (case channel of
        Float32Channel c \<Rightarrow>
          Channel_Write T_float32 le32 c fd (of_nat i) channelsCount metaPointer
            currentDataPointer
      | Int16Channel c \<Rightarrow>
          Channel_Write T_int16 le16 c fd (of_nat i) channelsCount metaPointer
            currentDataPointer
      | Int32Channel c \<Rightarrow>
          Channel_Write T_int32 le32 c fd (of_nat i) channelsCount metaPointer
            currentDataPointer
      | Other \<Rightarrow> (Inr currentDataPointer, fd))"

fun write_channels ::
  "element list \<Rightarrow> os_File \<Rightarrow> nat \<Rightarrow> uint32 \<Rightarrow> uintptr \<Rightarrow> uintptr
   \<Rightarrow> (panic + unit) \<times> os_File" where
  "write_channels [] fd i channelsCount metaPointer currentDataPointer = (Inr (), fd)"
| "write_channels (channel # rest) fd i channelsCount metaPointer currentDataPointer =
     (case element_Write channel fd i channelsCount metaPointer currentDataPointer of
        (Inl p, fd') \<Rightarrow> (Inl p, fd')
      | (Inr next, fd') \<Rightarrow> write_channels rest fd' (Suc i) channelsCount metaPointer next)"

definition File_Write :: "File \<Rightarrow> os_File \<Rightarrow> (panic + unit) \<times> os_File" where
  "File_Write f fd =
     (let head = File_head f;
          event = File_event f;
          venue = File_venue f;
          vehicle = File_vehicle f;
          fd = fst (os_Write fd (encode_head head));
          fd = fst (os_Seek fd (sint eventPointer));
          fd = fst (os_Write fd (encode_event event));
          fd = fst (os_Seek fd (sint venuePointer));
          fd = fst (os_Write fd (encode_venue venue));
          fd = fst (os_Seek fd (sint vehiclePointer));
          fd = fst (os_Write fd (encode_vehicle vehicle))
      in write_channels (Channels f) fd 0 (ChannelsCount head) channelsMetaPointer
           (channelsDataPointer f))"

section \<open>Notions used in the statements and proofs\<close>

text \<open>A descriptor on which no call ever fails.\<close>

definition healthy :: "os_File \<Rightarrow> bool" where
  "healthy fd = (\<forall>n. \<not> faulty fd n)"

text \<open>The descriptor after a successful \<open>Seek\<close> to \<open>a\<close> followed by a successful write of \<open>b\<close>.\<close>

definition write_at :: "os_File \<Rightarrow> nat \<Rightarrow> byte list \<Rightarrow> os_File" where
  "write_at fd a b =
     fd\<lparr>contents := (\<lambda>x. if a \<le> x \<and> x < a + length b then b ! (x - a) else contents fd x),
        extent := (if b = [] then extent fd else max (extent fd) (a + length b)),
        position := a + length b,
        history := history fd @ [Seek_call (int a) True, Write_call b True]\<rparr>"

text \<open>
  What \<open>Channel.Write\<close> builds for a channel: its sample bytes and its metadata record;
  there is none when the receiver or its \<open>Data\<close> is nil.
\<close>

definition sample_bytes :: "('a \<Rightarrow> byte list) \<Rightarrow> 'a Channel option \<Rightarrow> byte list" where
  "sample_bytes put c =
     (case c of None \<Rightarrow> []
      | Some ch \<Rightarrow> (case Data ch of None \<Rightarrow> [] | Some d \<Rightarrow> concat (map put d)))"

definition sample_count :: "'a Channel option \<Rightarrow> nat" where
  "sample_count c =
     (case c of None \<Rightarrow> 0
      | Some ch \<Rightarrow> (case Data ch of None \<Rightarrow> 0 | Some d \<Rightarrow> length d))"

definition loaded :: "'a Channel option \<Rightarrow> bool" where
  "loaded c = (case c of None \<Rightarrow> False | Some ch \<Rightarrow> Data ch \<noteq> None)"

definition channel_meta ::
  "type_arg \<Rightarrow> 'a Channel option \<Rightarrow> uint16 \<Rightarrow> uint32 \<Rightarrow> uintptr \<Rightarrow> uintptr
   \<Rightarrow> LdFileChannelMeta option" where
  "channel_meta T c n k mp dp =
     (case c of None \<Rightarrow> None
      | Some ch \<Rightarrow> (case Data ch of None \<Rightarrow> None
                    | Some d \<Rightarrow> Some (channelMeta T ch d n k mp dp)))"

fun element_meta ::
  "element \<Rightarrow> uint16 \<Rightarrow> uint32 \<Rightarrow> uintptr \<Rightarrow> uintptr \<Rightarrow> LdFileChannelMeta option" where
  "element_meta (Float32Channel c) n k mp dp = channel_meta T_float32 c n k mp dp"
| "element_meta (Int16Channel c) n k mp dp = channel_meta T_int16 c n k mp dp"
| "element_meta (Int32Channel c) n k mp dp = channel_meta T_int32 c n k mp dp"
| "element_meta Other n k mp dp = None"

fun element_bytes :: "element \<Rightarrow> byte list" where
  "element_bytes (Float32Channel c) = sample_bytes le32 c"
| "element_bytes (Int16Channel c) = sample_bytes le16 c"
| "element_bytes (Int32Channel c) = sample_bytes le32 c"
| "element_bytes Other = []"

fun element_samples :: "element \<Rightarrow> nat" where
  "element_samples (Float32Channel c) = sample_count c"
| "element_samples (Int16Channel c) = sample_count c"
| "element_samples (Int32Channel c) = sample_count c"
| "element_samples Other = 0"

text \<open>
  \<open>writable\<close>: a non-nil pointer to a channel whose \<open>Data\<close> is not nil, the elements
  that \<open>File.Write\<close> serializes. \<open>sound\<close>: an element on which it does not panic.
\<close>

fun writable :: "element \<Rightarrow> bool" where
  "writable (Float32Channel c) = loaded c"
| "writable (Int16Channel c) = loaded c"
| "writable (Int32Channel c) = loaded c"
| "writable Other = False"

definition sound :: "element \<Rightarrow> bool" where
  "sound e = (writable e \<or> e = Other)"

text \<open>The offset of the \<open>i\<close>-th metadata record, as a number.\<close>

definition slot :: "nat \<Rightarrow> nat" where
  "slot i = unat channelsMetaPointer + LdFileChannelMeta_Size * i"

text \<open>The sample bytes of the elements before index \<open>j\<close>, and of all elements.\<close>

definition data_before :: "element list \<Rightarrow> nat \<Rightarrow> nat" where
  "data_before cs j = sum_list (map (\<lambda>e. length (element_bytes e)) (take j cs))"

definition data_total :: "element list \<Rightarrow> nat" where
  "data_total cs = sum_list (map (\<lambda>e. length (element_bytes e)) cs)"

text \<open>The descriptor after the four leading writes of \<open>File.Write\<close>, and their bytes.\<close>

definition leading :: "File \<Rightarrow> os_File \<Rightarrow> os_File" where
  "leading f fd =
     (let fd = fst (os_Write fd (encode_head (File_head f)));
          fd = fst (os_Seek fd (sint eventPointer));
          fd = fst (os_Write fd (encode_event (File_event f)));
          fd = fst (os_Seek fd (sint venuePointer));
          fd = fst (os_Write fd (encode_venue (File_venue f)));
          fd = fst (os_Seek fd (sint vehiclePointer));
          fd = fst (os_Write fd (encode_vehicle (File_vehicle f)))
      in fd)"

definition leading_bytes :: "File \<Rightarrow> byte list" where
  "leading_bytes f =
     encode_head (File_head f) @ encode_event (File_event f)
     @ encode_venue (File_venue f) @ encode_vehicle (File_vehicle f)"

text \<open>The offset at which the output ends: the data region's start plus all sample bytes.\<close>

definition output_end :: "File \<Rightarrow> nat" where
  "output_end f = slot (length (Channels f)) + data_total (Channels f)"

text \<open>
  The byte offset of the \<open>Venue\<close> field inside \<open>LdFileHead\<close>, and of \<open>DataLength\<close>,
  \<open>ChannelId\<close>, \<open>DataType\<close> and \<open>Shift\<close> inside \<open>LdFileChannelMeta\<close>: the sizes of
  the fields declared before them.
\<close>

definition Head_Venue_offset :: nat where
  "Head_Venue_offset = 4 + 4 + 4 + 4 + 20 + 4 + 24 + 2 + 2 + 2 + 4 + 8 + 2 + 2 + 4 + 4
     + 16 + 16 + 16 + 16 + 64 + 64 + 64"

definition Meta_DataLength_offset :: nat where
  "Meta_DataLength_offset = 4 + 4 + 4"

definition Meta_ChannelId_offset :: nat where
  "Meta_ChannelId_offset = 4 + 4 + 4 + 4"

definition Meta_DataType_offset :: nat where
  "Meta_DataType_offset = 4 + 4 + 4 + 4 + 2"

definition Meta_Shift_offset :: nat where
  "Meta_Shift_offset = 4 + 4 + 4 + 4 + 2 + 2 + 2 + 2"

text \<open>The element width that the registry gives for an element's type.\<close>

fun element_width :: "element \<Rightarrow> nat" where
  "element_width (Float32Channel c) = unat (DataTypeLength DataTypeFloat32)"
| "element_width (Int16Channel c) = unat (DataTypeLength DataTypeInt16)"
| "element_width (Int32Channel c) = unat (DataTypeLength DataTypeInt32)"
| "element_width Other = 0"

text \<open>Whether a call recorded in the history succeeded.\<close>

fun succeeded :: "call \<Rightarrow> bool" where
  "succeeded (Seek_call off ok) = ok"
| "succeeded (Write_call b ok) = ok"

section \<open>Sample inputs\<close>

definition speed :: "float32 Channel" where
  "speed = \<lparr>Frequency = 100, Name = ''Speed'', ShortName = ''SPD'', Unit = ''km/h'',
            Data = Some [0, 0x41280000, 0x41CA6666]\<rparr>"

definition rpm :: "int16 Channel" where
  "rpm = \<lparr>Frequency = 100, Name = ''Engine RPM'', ShortName = ''RPM'', Unit = ''rpm'',
          Data = Some [800, 1200]\<rparr>"

definition session :: File where
  "session = \<lparr>Time = \<lparr>Format_02_01_2006 = ''01/11/2026'', Format_15_04_05 = ''10:20:30''\<rparr>,
     Driver = ''John Doe'', Vehicle = ''Race Car #42'', Venue = ''Silverstone Circuit'',
     ShortComment = ''Qualifying session'', EventName = ''Grand Prix'', EventSession = ''Q1'',
     EventComment = ''Qualifying session 1'', VehicleId = ''CAR42'', VehicleWeight = 1450,
     VehicleType = ''GT3'', VehicleComment = ''Race spec'', Channels = []\<rparr>"

definition two_channels :: File where
  "two_channels = AddChannels session [Float32Channel (Some speed), Int16Channel (Some rpm)]"

text \<open>A channel between two others that is of no supported type.\<close>

definition with_stranger :: File where
  "with_stranger =
     AddChannels session [Float32Channel (Some speed), Other, Int16Channel (Some rpm)]"

text \<open>65536 elements that are no channels, then a channel.\<close>

definition late_channel :: File where
  "late_channel = session\<lparr>Channels := replicate 65536 Other @ [Float32Channel (Some speed)]\<rparr>"

text \<open>65537 channels: one more than a \<open>uint16\<close> index can tell apart.\<close>

definition many_channels :: File where
  "many_channels = session\<lparr>Channels := replicate 65537 (Float32Channel (Some speed))\<rparr>"

text \<open>So many channels that the data region starts beyond 4 GiB.\<close>

definition crowded :: File where
  "crowded = session\<lparr>Channels := replicate 34636799 (Float32Channel (Some speed))\<rparr>"

text \<open>One channel of \<open>2 ^ 32 = 4294967296\<close> samples.\<close>

definition long_run :: File where
  "long_run =
     session\<lparr>Channels := [Int16Channel (Some (rpm\<lparr>Data := Some (replicate 4294967296 0)\<rparr>))]\<rparr>"

text \<open>A descriptor on which every call fails (a closed file), and one on which only the
  first call fails.\<close>

definition broken :: os_File where
  "broken = created\<lparr>faulty := (\<lambda>n. True)\<rparr>"

definition flaky :: os_File where
  "flaky = created\<lparr>faulty := (\<lambda>n. n = 0)\<rparr>"

section \<open>Basic facts\<close>

lemma length_le16 [simp]: "length (le16 w) = 2"
  by (simp add: le16_def)

lemma length_le32 [simp]: "length (le32 w) = 4"
  by (simp add: le32_def)

lemma length_zeros [simp]: "length (zeros n) = n"
  by (simp add: zeros_def)

lemma length_string_bytes [simp]: "length (string_bytes s) = length s"
  by (simp add: string_bytes_def)

lemma length_copy [simp]: "length (copy dst src) = length dst"
  by (simp add: copy_def)

lemma length_encode_head: "length (encode_head (File_head f)) = LdFileHead_Size"
  by (simp add: encode_head_def File_head_def LdFileHead_Size_def Let_def)

lemma length_encode_event: "length (encode_event (File_event f)) = LdFileEvent_Size"
  by (simp add: encode_event_def File_event_def LdFileEvent_Size_def Let_def)

lemma length_encode_venue: "length (encode_venue (File_venue f)) = LdFileVenue_Size"
  by (simp add: encode_venue_def File_venue_def LdFileVenue_Size_def Let_def)

lemma length_encode_vehicle: "length (encode_vehicle (File_vehicle f)) = LdFileVehicle_Size"
  by (simp add: encode_vehicle_def File_vehicle_def LdFileVehicle_Size_def Let_def)

lemma length_encode_meta:
  "length (encode_meta (channelMeta T c d n k mp dp)) = LdFileChannelMeta_Size"
  by (simp add: encode_meta_def channelMeta_def LdFileChannelMeta_Size_def Let_def)

lemma sizes:
  "LdFileHead_Size = 1762" "LdFileEvent_Size = 1154" "LdFileVenue_Size = 1100"
  "LdFileVehicle_Size = 260" "LdFileChannelMeta_Size = 124"
  by (simp_all add: LdFileHead_Size_def LdFileEvent_Size_def LdFileVenue_Size_def
      LdFileVehicle_Size_def LdFileChannelMeta_Size_def)

lemma pointers:
  "eventPointer = 1762" "venuePointer = 2916" "vehiclePointer = 4016"
  "channelsMetaPointer = 4276" "channelMetaSize = 124"
  by (simp_all add: eventPointer_def venuePointer_def vehiclePointer_def
      channelsMetaPointer_def headerSize_def eventSize_def venueSize_def vehicleSize_def
      channelMetaSize_def sizes)

lemma sint_pointers:
  "sint eventPointer = 1762" "sint venuePointer = 2916" "sint vehiclePointer = 4016"
  by (simp_all add: pointers)

lemma sint_small: "unat (p :: 64 word) < 2 ^ 63 \<Longrightarrow> sint p = int (unat p)"
proof -
  assume "unat p < 2 ^ 63"
  then have "int (unat p) < int (2 ^ 63)"
    by (simp only: of_nat_less_iff)
  then have "uint p < 2 ^ 63"
    by simp
  moreover have "- (2 ^ 63) \<le> uint p"
    by (rule order_trans [of _ 0]) simp_all
  ultimately have "signed_take_bit 63 (uint p) = uint p"
    by (rule signed_take_bit_int_eq_self [rotated])
  then show ?thesis
    by (simp add: sint_uint)
qed

lemma unat_add_small:
  "unat (p :: 64 word) + n < 2 ^ 64 \<Longrightarrow> unat (p + of_nat n) = unat p + n"
  by (simp add: unat_word_ariths unat_of_nat)

lemma unat_ucast16: "unat (ucast (w :: 16 word) :: 64 word) = unat w"
proof -
  have "unat w < 2 ^ 16"
    using unsigned_less [of w, where 'a = nat] by simp
  then have "unat w < 2 ^ 64"
    by simp
  then show ?thesis
    by (simp add: unsigned_ucast_eq take_bit_eq_mod)
qed

lemma unat_meta_pointer:
  "unat (currentMetaPointer (of_nat i) channelsMetaPointer) = 4276 + 124 * (i mod 65536)"
proof -
  have "i mod 65536 < 65536" by simp
  then have "4276 + 124 * (i mod 65536) < (2::nat) ^ 64" by simp
  then show ?thesis
    by (simp add: currentMetaPointer_def pointers unat_word_ariths unat_of_nat unat_ucast16)
qed

lemma seek_write:
  "healthy fd \<Longrightarrow> off = int a \<Longrightarrow> fst (os_Write (fst (os_Seek fd off)) b) = write_at fd a b"
  by (simp add: healthy_def os_Write_def os_Seek_def write_at_def cong: if_cong)

lemma write_at_simps [simp]:
  "contents (write_at fd a b) x =
     (if a \<le> x \<and> x < a + length b then b ! (x - a) else contents fd x)"
  "extent (write_at fd a b) = (if b = [] then extent fd else max (extent fd) (a + length b))"
  "position (write_at fd a b) = a + length b"
  "faulty (write_at fd a b) = faulty fd"
  "history (write_at fd a b) = history fd @ [Seek_call (int a) True, Write_call b True]"
  by (simp_all add: write_at_def)

lemma healthy_write_at [simp]: "healthy (write_at fd a b) = healthy fd"
  by (simp add: healthy_def)

lemma slot_eq: "slot i = 4276 + 124 * i"
  by (simp add: slot_def pointers sizes)

lemma channel_meta_None: "channel_meta T c n k mp dp = None \<longleftrightarrow> \<not> loaded c"
  by (auto simp: loaded_def channel_meta_def split: option.splits)

lemma Channel_Write_effect:
  assumes "healthy fd" and "channel_meta T c (of_nat i) k channelsMetaPointer dp = Some m"
    and "unat dp + length (sample_bytes put c) < 2 ^ 63"
  shows "Channel_Write T put c fd (of_nat i) k channelsMetaPointer dp =
           (Inr (dp + of_nat (length (sample_bytes put c))),
            write_at (write_at fd (slot (i mod 65536)) (encode_meta m))
               (unat dp) (sample_bytes put c))"
proof -
  from assms(2) obtain ch d where c: "c = Some ch" and d: "Data ch = Some d"
    and m: "m = channelMeta T ch d (of_nat i) k channelsMetaPointer dp"
    by (auto simp: channel_meta_def split: option.splits)
  have s: "sint (currentMetaPointer (of_nat i) channelsMetaPointer)
             = int (slot (i mod 65536))"
    by (subst sint_small) (simp_all add: unat_meta_pointer slot_eq)
  have p: "sint dp = int (unat dp)"
    using assms(3) by (intro sint_small) simp
  let ?m = "encode_meta (channelMeta T ch d (of_nat i) k channelsMetaPointer dp)"
  let ?fd1 = "fst (os_Write (fst (os_Seek fd
                (sint (currentMetaPointer (of_nat i) channelsMetaPointer)))) ?m)"
  have 1: "?fd1 = write_at fd (slot (i mod 65536)) ?m"
    using assms(1) s by (rule seek_write)
  have "healthy ?fd1"
    using assms(1) by (simp add: 1)
  then have 2: "fst (os_Write (fst (os_Seek ?fd1 (sint dp))) (concat (map put d)))
                  = write_at ?fd1 (unat dp) (concat (map put d))"
    using p by (rule seek_write)
  show ?thesis
    unfolding Channel_Write_def Let_def sample_bytes_def m
    by (simp only: c d option.case option.sel 1 2 [unfolded 1])
qed

lemma element_meta_None: "element_meta e n k mp dp = None \<longleftrightarrow> \<not> writable e"
  by (cases e) (simp_all add: channel_meta_None)

lemma channel_meta_length:
  "channel_meta T c n k mp dp = Some m \<Longrightarrow> length (encode_meta m) = 124"
  by (auto simp: channel_meta_def length_encode_meta sizes split: option.splits)

lemma element_meta_length:
  "element_meta e n k mp dp = Some m \<Longrightarrow> length (encode_meta m) = 124"
  by (cases e) (auto dest: channel_meta_length)

lemma element_bytes_Nil: "\<not> writable e \<Longrightarrow> element_bytes e = []"
  by (cases e) (auto simp: loaded_def sample_bytes_def split: option.splits)

lemma element_Write_effect:
  assumes "healthy fd" and "sound e"
    and "unat dp + length (element_bytes e) < 2 ^ 63"
  shows "element_Write e fd i k channelsMetaPointer dp =
           (Inr (dp + of_nat (length (element_bytes e))),
            case element_meta e (of_nat i) k channelsMetaPointer dp of
              None \<Rightarrow> fd
            | Some m \<Rightarrow> write_at (write_at fd (slot (i mod 65536)) (encode_meta m))
                         (unat dp) (element_bytes e))"
proof (cases e)
  case (Float32Channel c)
  with assms obtain m where m: "channel_meta T_float32 c (of_nat i) k channelsMetaPointer dp = Some m"
    using channel_meta_None [of T_float32 c "of_nat i" k channelsMetaPointer dp]
    by (auto simp: sound_def)
  with assms Float32Channel show ?thesis
    by (simp add: element_Write_def Channel_Write_effect)
next
  case (Int16Channel c)
  with assms obtain m where m: "channel_meta T_int16 c (of_nat i) k channelsMetaPointer dp = Some m"
    using channel_meta_None [of T_int16 c "of_nat i" k channelsMetaPointer dp]
    by (auto simp: sound_def)
  with assms Int16Channel show ?thesis
    by (simp add: element_Write_def Channel_Write_effect)
next
  case (Int32Channel c)
  with assms obtain m where m: "channel_meta T_int32 c (of_nat i) k channelsMetaPointer dp = Some m"
    using channel_meta_None [of T_int32 c "of_nat i" k channelsMetaPointer dp]
    by (auto simp: sound_def)
  with assms Int32Channel show ?thesis
    by (simp add: element_Write_def Channel_Write_effect)
next
  case Other
  then show ?thesis
    by (simp add: element_Write_def)
qed

lemma element_Write_returns:
  assumes "sound e"
  shows "\<exists>p fd'. element_Write e fd i k mp dp = (Inr p, fd')"
  using assms
  by (cases e) (auto simp: element_Write_def sound_def loaded_def Channel_Write_def Let_def
      split: option.splits)

lemma write_channels_returns:
  "\<forall>e\<in>set cs. sound e \<Longrightarrow> fst (write_channels cs fd i k mp dp) = Inr ()"
proof (induction cs arbitrary: fd i dp)
  case Nil
  then show ?case by simp
next
  case (Cons e cs)
  from Cons.prems have "sound e" by simp
  then obtain p fd' where "element_Write e fd i k mp dp = (Inr p, fd')"
    using element_Write_returns by blast
  with Cons show ?case by simp
qed

lemma data_total_Cons [simp]:
  "data_total (e # cs) = length (element_bytes e) + data_total cs"
  by (simp add: data_total_def)

lemma data_total_Nil [simp]: "data_total [] = 0"
  by (simp add: data_total_def)

lemma data_before_0 [simp]: "data_before cs 0 = 0"
  by (simp add: data_before_def)

lemma data_before_Suc [simp]:
  "data_before (e # cs) (Suc j) = length (element_bytes e) + data_before cs j"
  by (simp add: data_before_def)

lemma data_before_step:
  "j < length cs \<Longrightarrow> data_before cs j + length (element_bytes (cs ! j)) \<le> data_total cs"
proof (induction cs arbitrary: j)
  case Nil
  then show ?case by simp
next
  case (Cons e cs)
  then show ?case by (cases j) auto
qed

lemma write_channels_frame:
  assumes "healthy fd" and "\<forall>e\<in>set cs. sound e"
    and "unat dp + data_total cs < 2 ^ 63"
    and "\<forall>j<length cs. writable (cs ! j) \<longrightarrow>
           \<not> (slot ((i + j) mod 65536) \<le> x \<and> x < slot ((i + j) mod 65536) + 124)"
    and "\<not> (unat dp \<le> x \<and> x < unat dp + data_total cs)"
  shows "contents (snd (write_channels cs fd i k channelsMetaPointer dp)) x = contents fd x"
  using assms
proof (induction cs arbitrary: fd i dp)
  case Nil
  then show ?case by simp
next
  case (Cons e cs)
  let ?n = "length (element_bytes e)"
  let ?dp = "dp + of_nat ?n"
  let ?fd = "case element_meta e (of_nat i) k channelsMetaPointer dp of
              None \<Rightarrow> fd
            | Some m \<Rightarrow> write_at (write_at fd (slot (i mod 65536)) (encode_meta m))
                         (unat dp) (element_bytes e)"
  have e: "sound e" and bound: "unat dp + ?n < 2 ^ 63"
    using Cons.prems by simp_all
  have step: "element_Write e fd i k channelsMetaPointer dp = (Inr ?dp, ?fd)"
    using Cons.prems(1) e bound by (rule element_Write_effect)
  have dp: "unat ?dp = unat dp + ?n"
    using bound by (intro unat_add_small) simp
  have h: "healthy ?fd"
    using Cons.prems(1) by (simp split: option.splits)
  have slots: "\<forall>j<length cs. writable (cs ! j) \<longrightarrow>
           \<not> (slot ((Suc i + j) mod 65536) \<le> x \<and> x < slot ((Suc i + j) mod 65536) + 124)"
  proof (intro allI impI)
    fix j assume "j < length cs" "writable (cs ! j)"
    then show "\<not> (slot ((Suc i + j) mod 65536) \<le> x \<and> x < slot ((Suc i + j) mod 65536) + 124)"
      using Cons.prems(4) [rule_format, of "Suc j"] by simp
  qed
  have "contents (snd (write_channels cs ?fd (Suc i) k channelsMetaPointer ?dp)) x
          = contents ?fd x"
    using h _ _ slots
  proof (rule Cons.IH)
    show "\<forall>e\<in>set cs. sound e" using Cons.prems(2) by simp
    show "unat ?dp + data_total cs < 2 ^ 63" using Cons.prems(3) dp by simp
    show "\<not> (unat ?dp \<le> x \<and> x < unat ?dp + data_total cs)"
      using Cons.prems(5) dp by auto
  qed
  moreover have "contents ?fd x = contents fd x"
  proof (cases "element_meta e (of_nat i) k channelsMetaPointer dp")
    case None
    then show ?thesis by simp
  next
    case (Some m)
    then have w: "writable e"
      using element_meta_None [of e "of_nat i" k channelsMetaPointer dp] by simp
    have "\<not> (slot (i mod 65536) \<le> x \<and> x < slot (i mod 65536) + 124)"
      using Cons.prems(4) [rule_format, of 0] w by simp
    moreover have "length (encode_meta m) = 124"
      using Some by (rule element_meta_length)
    moreover have "\<not> (unat dp \<le> x \<and> x < unat dp + ?n)"
      using Cons.prems(5) by auto
    ultimately show ?thesis
      using Some by auto
  qed
  ultimately show ?case
    by (simp add: step)
qed

lemma write_channels_meta:
  assumes "healthy fd" and "\<forall>e\<in>set cs. sound e"
    and "unat dp + data_total cs < 2 ^ 63"
    and "i + length cs \<le> 65536"
    and "slot (i + length cs) \<le> unat dp"
    and "j < length cs"
    and "element_meta (cs ! j) (of_nat (i + j)) k channelsMetaPointer
           (dp + of_nat (data_before cs j)) = Some m"
    and "x < 124"
  shows "contents (snd (write_channels cs fd i k channelsMetaPointer dp)) (slot (i + j) + x)
           = encode_meta m ! x"
  using assms
proof (induction cs arbitrary: fd i dp j)
  case Nil
  then show ?case by simp
next
  case (Cons e cs)
  let ?n = "length (element_bytes e)"
  let ?dp = "dp + of_nat ?n"
  let ?fd = "case element_meta e (of_nat i) k channelsMetaPointer dp of
              None \<Rightarrow> fd
            | Some m \<Rightarrow> write_at (write_at fd (slot (i mod 65536)) (encode_meta m))
                         (unat dp) (element_bytes e)"
  have e: "sound e" and bound: "unat dp + ?n < 2 ^ 63"
    using Cons.prems by simp_all
  have step: "element_Write e fd i k channelsMetaPointer dp = (Inr ?dp, ?fd)"
    using Cons.prems(1) e bound by (rule element_Write_effect)
  have dp: "unat ?dp = unat dp + ?n"
    using bound by (intro unat_add_small) simp
  have h: "healthy ?fd"
    using Cons.prems(1) by (simp split: option.splits)
  have rest: "\<forall>e\<in>set cs. sound e"
    using Cons.prems(2) by simp
  have bound': "unat ?dp + data_total cs < 2 ^ 63"
    using Cons.prems(3) dp by simp
  have i: "i < 65536" "i mod 65536 = i"
    using Cons.prems(4) by simp_all
  show ?case
  proof (cases j)
    case 0
    let ?y = "slot i + x"
    from 0 Cons.prems(7) have m: "element_meta e (of_nat i) k channelsMetaPointer dp = Some m"
      by simp
    have len: "length (encode_meta m) = 124"
      using m by (rule element_meta_length)
    have below: "?y < unat dp"
      using Cons.prems(5) \<open>x < 124\<close> by (simp add: slot_eq)
    have "contents (snd (write_channels cs ?fd (Suc i) k channelsMetaPointer ?dp)) ?y
            = contents ?fd ?y"
      using h rest bound'
    proof (rule write_channels_frame)
      show "\<forall>j<length cs. writable (cs ! j) \<longrightarrow>
              \<not> (slot ((Suc i + j) mod 65536) \<le> ?y \<and> ?y < slot ((Suc i + j) mod 65536) + 124)"
      proof (intro allI impI)
        fix j assume "j < length cs"
        then have "(Suc i + j) mod 65536 = Suc i + j"
          using Cons.prems(4) by simp
        then show "\<not> (slot ((Suc i + j) mod 65536) \<le> ?y \<and> ?y < slot ((Suc i + j) mod 65536) + 124)"
          using \<open>x < 124\<close> by (simp add: slot_eq)
      qed
      show "\<not> (unat ?dp \<le> ?y \<and> ?y < unat ?dp + data_total cs)"
        using below dp by simp
    qed
    moreover have "contents ?fd ?y = encode_meta m ! x"
      using m len below \<open>x < 124\<close> by (simp add: i)
    ultimately show ?thesis
      using 0 by (simp add: step)
  next
    case (Suc j')
    have "contents (snd (write_channels cs ?fd (Suc i) k channelsMetaPointer ?dp))
            (slot (Suc i + j') + x) = encode_meta m ! x"
      using h rest bound'
    proof (rule Cons.IH)
      show "Suc i + length cs \<le> 65536" using Cons.prems(4) by simp
      show "slot (Suc i + length cs) \<le> unat ?dp" using Cons.prems(5) dp by simp
      show "j' < length cs" using Cons.prems(6) Suc by simp
      show "element_meta (cs ! j') (of_nat (Suc i + j')) k channelsMetaPointer
              (?dp + of_nat (data_before cs j')) = Some m"
        using Cons.prems(7) Suc by (simp add: add.assoc)
      show "x < 124" by fact
    qed
    then show ?thesis
      using Suc by (simp add: step)
  qed
qed

lemma write_channels_data:
  assumes "healthy fd" and "\<forall>e\<in>set cs. sound e"
    and "unat dp + data_total cs < 2 ^ 63"
    and "i + length cs \<le> 65536"
    and "slot (i + length cs) \<le> unat dp"
    and "j < length cs"
    and "x < length (element_bytes (cs ! j))"
  shows "contents (snd (write_channels cs fd i k channelsMetaPointer dp))
           (unat dp + data_before cs j + x) = element_bytes (cs ! j) ! x"
  using assms
proof (induction cs arbitrary: fd i dp j)
  case Nil
  then show ?case by simp
next
  case (Cons e cs)
  let ?n = "length (element_bytes e)"
  let ?dp = "dp + of_nat ?n"
  let ?fd = "case element_meta e (of_nat i) k channelsMetaPointer dp of
              None \<Rightarrow> fd
            | Some m \<Rightarrow> write_at (write_at fd (slot (i mod 65536)) (encode_meta m))
                         (unat dp) (element_bytes e)"
  have e: "sound e" and bound: "unat dp + ?n < 2 ^ 63"
    using Cons.prems by simp_all
  have step: "element_Write e fd i k channelsMetaPointer dp = (Inr ?dp, ?fd)"
    using Cons.prems(1) e bound by (rule element_Write_effect)
  have dp: "unat ?dp = unat dp + ?n"
    using bound by (intro unat_add_small) simp
  have h: "healthy ?fd"
    using Cons.prems(1) by (simp split: option.splits)
  have rest: "\<forall>e\<in>set cs. sound e"
    using Cons.prems(2) by simp
  have bound': "unat ?dp + data_total cs < 2 ^ 63"
    using Cons.prems(3) dp by simp
  show ?case
  proof (cases j)
    case 0
    let ?y = "unat dp + x"
    from 0 Cons.prems(7) have x: "x < ?n"
      by simp
    then have "element_bytes e \<noteq> []"
      by auto
    then have "writable e"
      using element_bytes_Nil by blast
    then obtain m where m: "element_meta e (of_nat i) k channelsMetaPointer dp = Some m"
      using element_meta_None [of e "of_nat i" k channelsMetaPointer dp] by auto
    have "contents (snd (write_channels cs ?fd (Suc i) k channelsMetaPointer ?dp)) ?y
            = contents ?fd ?y"
      using h rest bound'
    proof (rule write_channels_frame)
      show "\<forall>j<length cs. writable (cs ! j) \<longrightarrow>
              \<not> (slot ((Suc i + j) mod 65536) \<le> ?y \<and> ?y < slot ((Suc i + j) mod 65536) + 124)"
      proof (intro allI impI)
        fix j assume "j < length cs"
        then have "(Suc i + j) mod 65536 = Suc i + j" and "Suc i + j < i + length (e # cs)"
          using Cons.prems(4) by simp_all
        then show "\<not> (slot ((Suc i + j) mod 65536) \<le> ?y \<and> ?y < slot ((Suc i + j) mod 65536) + 124)"
          using Cons.prems(5) by (simp add: slot_eq)
      qed
      show "\<not> (unat ?dp \<le> ?y \<and> ?y < unat ?dp + data_total cs)"
        using x dp by simp
    qed
    moreover have "contents ?fd ?y = element_bytes e ! x"
      using m x by simp
    ultimately show ?thesis
      using 0 by (simp add: step)
  next
    case (Suc j')
    have "contents (snd (write_channels cs ?fd (Suc i) k channelsMetaPointer ?dp))
            (unat ?dp + data_before cs j' + x) = element_bytes (cs ! j') ! x"
      using h rest bound'
    proof (rule Cons.IH)
      show "Suc i + length cs \<le> 65536" using Cons.prems(4) by simp
      show "slot (Suc i + length cs) \<le> unat ?dp" using Cons.prems(5) dp by simp
      show "j' < length cs" using Cons.prems(6) Suc by simp
      show "x < length (element_bytes (cs ! j'))" using Cons.prems(7) Suc by simp
    qed
    then show ?thesis
      using Suc by (simp add: step dp add.assoc)
  qed
qed

lemma write_channels_extent:
  assumes "healthy fd" and "\<forall>e\<in>set cs. writable e"
    and "unat dp + data_total cs < 2 ^ 63"
    and "i + length cs \<le> 65536"
    and "slot (i + length cs) \<le> unat dp"
  shows "extent (snd (write_channels cs fd i k channelsMetaPointer dp)) =
           (if cs = [] then extent fd
            else max (extent fd)
                   (if data_total cs = 0 then slot (i + length cs) else unat dp + data_total cs))"
  using assms
proof (induction cs arbitrary: fd i dp)
  case Nil
  then show ?case by simp
next
  case (Cons e cs)
  let ?n = "length (element_bytes e)"
  let ?dp = "dp + of_nat ?n"
  have w: "writable e"
    using Cons.prems(2) by simp
  then obtain m where m: "element_meta e (of_nat i) k channelsMetaPointer dp = Some m"
    using element_meta_None [of e "of_nat i" k channelsMetaPointer dp] by auto
  let ?fd = "write_at (write_at fd (slot (i mod 65536)) (encode_meta m))
                         (unat dp) (element_bytes e)"
  have len: "length (encode_meta m) = 124"
    using m by (rule element_meta_length)
  have e: "sound e" and bound: "unat dp + ?n < 2 ^ 63"
    using Cons.prems w by (simp_all add: sound_def)
  have step: "element_Write e fd i k channelsMetaPointer dp = (Inr ?dp, ?fd)"
    using element_Write_effect [OF Cons.prems(1) e bound, of i k] by (simp add: m)
  have dp: "unat ?dp = unat dp + ?n"
    using bound by (intro unat_add_small) simp
  have i: "i mod 65536 = i"
    using Cons.prems(4) by simp
  have nonempty: "encode_meta m \<noteq> []"
    using len by auto
  have ext: "extent ?fd = (if ?n = 0 then max (extent fd) (slot (Suc i))
                           else max (extent fd) (unat dp + ?n))"
    using Cons.prems(5) len nonempty by (auto simp: i slot_eq max_def)
  have IH: "extent (snd (write_channels cs ?fd (Suc i) k channelsMetaPointer ?dp)) =
           (if cs = [] then extent ?fd
            else max (extent ?fd)
                   (if data_total cs = 0 then slot (Suc i + length cs)
                    else unat ?dp + data_total cs))"
  proof (rule Cons.IH)
    show "healthy ?fd" using Cons.prems(1) by simp
    show "\<forall>e\<in>set cs. writable e" using Cons.prems(2) by simp
    show "unat ?dp + data_total cs < 2 ^ 63" using Cons.prems(3) dp by simp
    show "Suc i + length cs \<le> 65536" using Cons.prems(4) by simp
    show "slot (Suc i + length cs) \<le> unat ?dp" using Cons.prems(5) dp by simp
  qed
  have mono: "slot (Suc i) \<le> slot (Suc i + length cs)"
    by (simp add: slot_eq)
  have "extent (snd (write_channels (e # cs) fd i k channelsMetaPointer dp))
          = extent (snd (write_channels cs ?fd (Suc i) k channelsMetaPointer ?dp))"
    by (simp add: step)
  also have "\<dots> = max (extent fd)
                   (if data_total (e # cs) = 0 then slot (i + length (e # cs))
                    else unat dp + data_total (e # cs))"
    unfolding IH ext dp using Cons.prems(5) mono by (auto simp: max_def)
  finally show ?case
    by simp
qed

lemma history_Channel_Write:
  "\<exists>h. history (snd (Channel_Write T put c fd n k mp dp)) = history fd @ h"
  by (auto simp: Channel_Write_def Let_def os_Write_def os_Seek_def split: option.splits)

lemma history_element_Write:
  "\<exists>h. history (snd (element_Write e fd i k mp dp)) = history fd @ h"
  by (cases e) (simp_all add: element_Write_def history_Channel_Write)

lemma history_write_channels:
  "\<exists>h. history (snd (write_channels cs fd i k mp dp)) = history fd @ h"
proof (induction cs arbitrary: fd i dp)
  case Nil
  then show ?case by simp
next
  case (Cons e cs)
  obtain r fd' where step: "element_Write e fd i k mp dp = (r, fd')"
    by (cases "element_Write e fd i k mp dp")
  from history_element_Write [of e fd i k mp dp] step
  obtain h where h: "history fd' = history fd @ h"
    by auto
  show ?case
  proof (cases r)
    case (Inl p)
    then show ?thesis
      using step h by simp
  next
    case (Inr p)
    from Cons.IH [of fd' "Suc i" p] obtain h' where
      "history (snd (write_channels cs fd' (Suc i) k mp p)) = history fd' @ h'"
      by blast
    then show ?thesis
      using step Inr h by simp
  qed
qed

lemma File_Write_leading:
  "File_Write f fd =
     write_channels (Channels f) (leading f fd) 0 (of_nat (length (Channels f)))
       channelsMetaPointer (channelsDataPointer f)"
  by (simp add: File_Write_def leading_def Let_def File_head_def)

lemma length_leading_bytes: "length (leading_bytes f) = 4276"
  by (simp add: leading_bytes_def length_encode_head length_encode_event
      length_encode_venue length_encode_vehicle sizes)

lemma created_simps [simp]:
  "contents created = (\<lambda>a. 0)" "extent created = 0" "position created = 0"
  "faulty created = (\<lambda>n. False)" "history created = []"
  by (simp_all add: created_def)

lemma leading_lengths:
  "length (encode_head (File_head f)) = 1762"
  "length (encode_event (File_event f)) = 1154"
  "length (encode_venue (File_venue f)) = 1100"
  "length (encode_vehicle (File_vehicle f)) = 260"
  by (simp_all add: length_encode_head length_encode_event
      length_encode_venue length_encode_vehicle sizes)

lemma leading_nonempty:
  "encode_head (File_head f) \<noteq> []"
  "encode_event (File_event f) \<noteq> []"
  "encode_venue (File_venue f) \<noteq> []"
  "encode_vehicle (File_vehicle f) \<noteq> []"
  using leading_lengths [of f] by auto

lemma os_Write_created:
  "fst (os_Write created b) =
     created\<lparr>contents := (\<lambda>x. if x < length b then b ! x else 0),
             extent := length b, position := length b, history := [Write_call b True]\<rparr>"
  by (simp add: os_Write_def cong: if_cong)

lemma leading_created:
  "leading f created =
     write_at (write_at (write_at (fst (os_Write created (encode_head (File_head f))))
        1762 (encode_event (File_event f)))
        2916 (encode_venue (File_venue f)))
        4016 (encode_vehicle (File_vehicle f))"
proof -
  let ?fd1 = "fst (os_Write created (encode_head (File_head f)))"
  have h1: "healthy ?fd1"
    by (simp add: os_Write_created healthy_def)
  let ?fd2 = "fst (os_Write (fst (os_Seek ?fd1 (sint eventPointer))) (encode_event (File_event f)))"
  have 2: "?fd2 = write_at ?fd1 1762 (encode_event (File_event f))"
    using h1 by (rule seek_write) (simp add: sint_pointers)
  have h2: "healthy ?fd2"
    using h1 by (simp add: 2)
  let ?fd3 = "fst (os_Write (fst (os_Seek ?fd2 (sint venuePointer))) (encode_venue (File_venue f)))"
  have 3: "?fd3 = write_at ?fd2 2916 (encode_venue (File_venue f))"
    using h2 by (rule seek_write) (simp add: sint_pointers)
  have h3: "healthy ?fd3"
    using h2 by (simp add: 3)
  let ?fd4 = "fst (os_Write (fst (os_Seek ?fd3 (sint vehiclePointer))) (encode_vehicle (File_vehicle f)))"
  have 4: "?fd4 = write_at ?fd3 4016 (encode_vehicle (File_vehicle f))"
    using h3 by (rule seek_write) (simp add: sint_pointers)
  have "leading f created = ?fd4"
    by (simp add: leading_def Let_def)
  also have "\<dots> = write_at (write_at (write_at ?fd1
        1762 (encode_event (File_event f)))
        2916 (encode_venue (File_venue f)))
        4016 (encode_vehicle (File_vehicle f))"
    by (simp only: 4 3 [symmetric] 2 [symmetric])
  finally show ?thesis .
qed

lemma healthy_leading: "healthy (leading f created)"
  by (simp add: leading_created os_Write_created healthy_def)

lemma extent_leading: "extent (leading f created) = 4276"
  by (simp add: leading_created os_Write_created leading_lengths leading_nonempty)

lemma history_leading:
  "history (leading f created) =
     [Write_call (encode_head (File_head f)) True,
      Seek_call 1762 True, Write_call (encode_event (File_event f)) True,
      Seek_call 2916 True, Write_call (encode_venue (File_venue f)) True,
      Seek_call 4016 True, Write_call (encode_vehicle (File_vehicle f)) True]"
  by (simp add: leading_created os_Write_created)

lemma contents_leading:
  "contents (leading f created) x = (if x < 4276 then leading_bytes f ! x else 0)"
proof -
  have l: "length (encode_head (File_head f)) = 1762"
    "length (encode_event (File_event f)) = 1154"
    "length (encode_venue (File_venue f)) = 1100"
    "length (encode_vehicle (File_vehicle f)) = 260"
    by (simp_all add: length_encode_head length_encode_event
      length_encode_venue length_encode_vehicle sizes)
  consider "x < 1762" | "1762 \<le> x" "x < 2916" | "2916 \<le> x" "x < 4016"
    | "4016 \<le> x" "x < 4276" | "4276 \<le> x"
    by linarith
  then show ?thesis
  proof cases
    case 1
    then show ?thesis
      by (auto simp: leading_created os_Write_created l leading_bytes_def nth_append)
  next
    case 2
    then show ?thesis
      by (auto simp: leading_created os_Write_created l leading_bytes_def nth_append)
  next
    case 3
    then show ?thesis
      by (auto simp: leading_created os_Write_created l leading_bytes_def nth_append)
  next
    case 4
    then show ?thesis
      by (auto simp: leading_created os_Write_created l leading_bytes_def nth_append)
  next
    case 5
    then show ?thesis
      by (simp add: leading_created os_Write_created l)
  qed
qed

lemma element_Write_panics:
  "\<not> sound e \<Longrightarrow> element_Write e fd i k mp dp = (Inl NilPointerDereference, fd)"
  by (cases e)
    (auto simp: sound_def element_Write_def Channel_Write_def loaded_def split: option.splits)

lemma write_channels_untouched:
  assumes "healthy fd"
    and "unat dp + data_total cs < 2 ^ 63"
    and "\<forall>j<length cs. writable (cs ! j) \<longrightarrow>
           \<not> (slot ((i + j) mod 65536) \<le> x \<and> x < slot ((i + j) mod 65536) + 124)"
    and "\<not> (unat dp \<le> x \<and> x < unat dp + data_total cs)"
  shows "contents (snd (write_channels cs fd i k channelsMetaPointer dp)) x = contents fd x"
  using assms
proof (induction cs arbitrary: fd i dp)
  case Nil
  then show ?case by simp
next
  case (Cons e cs)
  let ?n = "length (element_bytes e)"
  let ?dp = "dp + of_nat ?n"
  let ?fd = "case element_meta e (of_nat i) k channelsMetaPointer dp of
              None \<Rightarrow> fd
            | Some m \<Rightarrow> write_at (write_at fd (slot (i mod 65536)) (encode_meta m))
                         (unat dp) (element_bytes e)"
  show ?case
  proof (cases "sound e")
    case False
    then show ?thesis
      by (simp add: element_Write_panics)
  next
    case e: True
  have bound: "unat dp + ?n < 2 ^ 63"
    using Cons.prems by simp
  have step: "element_Write e fd i k channelsMetaPointer dp = (Inr ?dp, ?fd)"
    using Cons.prems(1) e bound by (rule element_Write_effect)
  have dp: "unat ?dp = unat dp + ?n"
    using bound by (intro unat_add_small) simp
  have h: "healthy ?fd"
    using Cons.prems(1) by (simp split: option.splits)
  have slots: "\<forall>j<length cs. writable (cs ! j) \<longrightarrow>
           \<not> (slot ((Suc i + j) mod 65536) \<le> x \<and> x < slot ((Suc i + j) mod 65536) + 124)"
  proof (intro allI impI)
    fix j assume "j < length cs" "writable (cs ! j)"
    then show "\<not> (slot ((Suc i + j) mod 65536) \<le> x \<and> x < slot ((Suc i + j) mod 65536) + 124)"
      using Cons.prems(3) [rule_format, of "Suc j"] by simp
  qed
  have "contents (snd (write_channels cs ?fd (Suc i) k channelsMetaPointer ?dp)) x
          = contents ?fd x"
    using h _ slots
  proof (rule Cons.IH)
    show "unat ?dp + data_total cs < 2 ^ 63" using Cons.prems(2) dp by simp
    show "\<not> (unat ?dp \<le> x \<and> x < unat ?dp + data_total cs)"
      using Cons.prems(4) dp by auto
  qed
  moreover have "contents ?fd x = contents fd x"
  proof (cases "element_meta e (of_nat i) k channelsMetaPointer dp")
    case None
    then show ?thesis by simp
  next
    case (Some m)
    then have w: "writable e"
      using element_meta_None [of e "of_nat i" k channelsMetaPointer dp] by simp
    have "\<not> (slot (i mod 65536) \<le> x \<and> x < slot (i mod 65536) + 124)"
      using Cons.prems(3) [rule_format, of 0] w by simp
    moreover have "length (encode_meta m) = 124"
      using Some by (rule element_meta_length)
    moreover have "\<not> (unat dp \<le> x \<and> x < unat dp + ?n)"
      using Cons.prems(4) by auto
    ultimately show ?thesis
      using Some by auto
  qed
  ultimately show ?thesis
    by (simp add: step)
  qed
qed

lemma unat_channelsDataPointer:
  assumes "slot (length (Channels f)) < 2 ^ 64"
  shows "unat (channelsDataPointer f) = slot (length (Channels f))"
proof -
  have "unat (4276 + 124 * word_of_nat (length (Channels f)) :: 64 word)
          = (4276 + 124 * length (Channels f)) mod 2 ^ 64"
    by (simp add: unat_word_ariths unat_of_nat mod_simps)
  then show ?thesis
    using assms by (simp add: channelsDataPointer_def pointers slot_eq)
qed

lemma read_at_eq:
  assumes "length b = n" and "\<And>x. x < n \<Longrightarrow> contents fd (a + x) = b ! x"
  shows "read_at fd a n = b"
  using assms by (auto simp: read_at_def list_eq_iff_nth_eq)

lemma File_Write_returns:
  "\<forall>e\<in>set (Channels f). sound e \<Longrightarrow> fst (File_Write f fd) = Inr ()"
  by (simp add: File_Write_leading write_channels_returns)

lemma File_Write_meta:
  assumes "\<forall>e\<in>set (Channels f). sound e"
    and "length (Channels f) \<le> 65536"
    and "output_end f < 2 ^ 63"
    and "i < length (Channels f)"
    and "element_meta (Channels f ! i) (of_nat i) (of_nat (length (Channels f)))
           channelsMetaPointer
           (channelsDataPointer f + of_nat (data_before (Channels f) i)) = Some m"
  shows "read_at (snd (File_Write f created)) (slot i) 124 = encode_meta m"
proof (rule read_at_eq)
  show "length (encode_meta m) = 124"
    using assms(5) by (rule element_meta_length)
  fix x :: nat assume x: "x < 124"
  have dp: "unat (channelsDataPointer f) = slot (length (Channels f))"
    using assms(3) by (intro unat_channelsDataPointer) (simp add: output_end_def)
  have "contents (snd (write_channels (Channels f) (leading f created) 0
           (of_nat (length (Channels f))) channelsMetaPointer (channelsDataPointer f)))
           (slot (0 + i) + x) = encode_meta m ! x"
    using healthy_leading assms(1)
  proof (rule write_channels_meta)
    show "unat (channelsDataPointer f) + data_total (Channels f) < 2 ^ 63"
      using assms(3) dp by (simp add: output_end_def)
    show "0 + length (Channels f) \<le> 65536" using assms(2) by simp
    show "slot (0 + length (Channels f)) \<le> unat (channelsDataPointer f)"
      using dp by simp
    show "i < length (Channels f)" by fact
    show "element_meta (Channels f ! i) (of_nat (0 + i)) (of_nat (length (Channels f)))
           channelsMetaPointer
           (channelsDataPointer f + of_nat (data_before (Channels f) i)) = Some m"
      using assms(5) by simp
    show "x < 124" by fact
  qed
  then show "contents (snd (File_Write f created)) (slot i + x) = encode_meta m ! x"
    by (simp add: File_Write_leading)
qed

lemma File_Write_data:
  assumes "\<forall>e\<in>set (Channels f). sound e"
    and "length (Channels f) \<le> 65536"
    and "output_end f < 2 ^ 63"
    and "i < length (Channels f)"
  shows "read_at (snd (File_Write f created))
           (slot (length (Channels f)) + data_before (Channels f) i)
           (length (element_bytes (Channels f ! i))) = element_bytes (Channels f ! i)"
proof (rule read_at_eq)
  show "length (element_bytes (Channels f ! i)) = length (element_bytes (Channels f ! i))"
    by simp
  fix x :: nat assume x: "x < length (element_bytes (Channels f ! i))"
  have dp: "unat (channelsDataPointer f) = slot (length (Channels f))"
    using assms(3) by (intro unat_channelsDataPointer) (simp add: output_end_def)
  have "contents (snd (write_channels (Channels f) (leading f created) 0
           (of_nat (length (Channels f))) channelsMetaPointer (channelsDataPointer f)))
           (unat (channelsDataPointer f) + data_before (Channels f) i + x)
           = element_bytes (Channels f ! i) ! x"
    using healthy_leading assms(1)
  proof (rule write_channels_data)
    show "unat (channelsDataPointer f) + data_total (Channels f) < 2 ^ 63"
      using assms(3) dp by (simp add: output_end_def)
    show "0 + length (Channels f) \<le> 65536" using assms(2) by simp
    show "slot (0 + length (Channels f)) \<le> unat (channelsDataPointer f)"
      using dp by simp
    show "i < length (Channels f)" by fact
    show "x < length (element_bytes (Channels f ! i))" by fact
  qed
  then show "contents (snd (File_Write f created))
               (slot (length (Channels f)) + data_before (Channels f) i + x)
             = element_bytes (Channels f ! i) ! x"
    by (simp add: File_Write_leading dp)
qed

lemma File_Write_extent:
  assumes "\<forall>e\<in>set (Channels f). writable e"
    and "length (Channels f) \<le> 65536"
    and "output_end f < 2 ^ 63"
  shows "extent (snd (File_Write f created)) = output_end f"
proof -
  have dp: "unat (channelsDataPointer f) = slot (length (Channels f))"
    using assms(3) by (intro unat_channelsDataPointer) (simp add: output_end_def)
  have "extent (snd (write_channels (Channels f) (leading f created) 0
           (of_nat (length (Channels f))) channelsMetaPointer (channelsDataPointer f))) =
           (if Channels f = [] then extent (leading f created)
            else max (extent (leading f created))
                   (if data_total (Channels f) = 0 then slot (0 + length (Channels f))
                    else unat (channelsDataPointer f) + data_total (Channels f)))"
    using healthy_leading assms(1)
  proof (rule write_channels_extent)
    show "unat (channelsDataPointer f) + data_total (Channels f) < 2 ^ 63"
      using assms(3) dp by (simp add: output_end_def)
    show "0 + length (Channels f) \<le> 65536" using assms(2) by simp
    show "slot (0 + length (Channels f)) \<le> unat (channelsDataPointer f)"
      using dp by simp
  qed
  then show ?thesis
    by (auto simp: File_Write_leading dp extent_leading output_end_def slot_eq max_def)
qed

lemma File_Write_leading_bytes:
  assumes "output_end f < 2 ^ 63" and "x < 4276"
  shows "contents (snd (File_Write f created)) x = leading_bytes f ! x"
proof -
  have dp: "unat (channelsDataPointer f) = slot (length (Channels f))"
    using assms(1) by (intro unat_channelsDataPointer) (simp add: output_end_def)
  have "contents (snd (write_channels (Channels f) (leading f created) 0
           (of_nat (length (Channels f))) channelsMetaPointer (channelsDataPointer f))) x
           = contents (leading f created) x"
    using healthy_leading
  proof (rule write_channels_untouched)
    show "unat (channelsDataPointer f) + data_total (Channels f) < 2 ^ 63"
      using assms(1) dp by (simp add: output_end_def)
    show "\<forall>j<length (Channels f). writable (Channels f ! j) \<longrightarrow>
           \<not> (slot ((0 + j) mod 65536) \<le> x \<and> x < slot ((0 + j) mod 65536) + 124)"
      using assms(2) by (simp add: slot_eq)
    show "\<not> (unat (channelsDataPointer f) \<le> x
            \<and> x < unat (channelsDataPointer f) + data_total (Channels f))"
      using assms(2) by (simp add: dp slot_eq)
  qed
  then show ?thesis
    using assms(2) by (simp add: File_Write_leading contents_leading)
qed

section \<open>Further facts\<close>

lemma copy_law:
  "copy (zeros C) s =
     (if length s < C then string_bytes s @ zeros (C - length s) else take C (string_bytes s))"
  by (simp add: copy_def zeros_def)

lemma encode_head_Venue:
  "take 64 (drop Head_Venue_offset (encode_head (File_head f))) = Head_Venue (File_head f)"
  by (simp add: encode_head_def Head_Venue_offset_def File_head_def Let_def)

lemma encode_venue_Name:
  "take 64 (encode_venue (File_venue f)) = Venue_Name (File_venue f)"
  by (simp add: encode_venue_def File_venue_def Let_def)

lemma read_at_leading:
  assumes "output_end f < 2 ^ 63" and "a + n \<le> 4276"
  shows "read_at (snd (File_Write f created)) a n = take n (drop a (leading_bytes f))"
proof (rule read_at_eq)
  show "length (take n (drop a (leading_bytes f))) = n"
    using assms(2) by (simp add: length_leading_bytes)
  fix x assume "x < n"
  then show "contents (snd (File_Write f created)) (a + x) = take n (drop a (leading_bytes f)) ! x"
    using assms by (simp add: File_Write_leading_bytes length_leading_bytes)
qed

lemma leading_bytes_Head_Venue:
  "take 64 (drop Head_Venue_offset (leading_bytes f)) = Head_Venue (File_head f)"
proof -
  have "Head_Venue_offset + 64 \<le> length (encode_head (File_head f))"
    by (simp add: leading_lengths Head_Venue_offset_def)
  then have "take 64 (drop Head_Venue_offset (leading_bytes f))
          = take 64 (drop Head_Venue_offset (encode_head (File_head f)))"
    by (simp add: leading_bytes_def)
  then show ?thesis
    by (simp only: encode_head_Venue)
qed

lemma leading_bytes_Venue_Name:
  "take 64 (drop 2916 (leading_bytes f)) = Venue_Name (File_venue f)"
proof -
  have "take 64 (drop 2916 (leading_bytes f)) = take 64 (encode_venue (File_venue f))"
    by (simp add: leading_bytes_def leading_lengths)
  then show ?thesis
    by (simp only: encode_venue_Name)
qed

lemma length_concat_le32: "length (concat (map le32 d)) = 4 * length d"
  by (induction d) simp_all

lemma length_concat_le16: "length (concat (map le16 d)) = 2 * length d"
  by (induction d) simp_all

lemma length_sample_bytes_le32: "length (sample_bytes le32 c) = 4 * sample_count c"
  by (simp add: sample_bytes_def sample_count_def length_concat_le32 split: option.splits)

lemma length_sample_bytes_le16: "length (sample_bytes le16 c) = 2 * sample_count c"
  by (simp add: sample_bytes_def sample_count_def length_concat_le16 split: option.splits)

lemma Channels_two_channels:
  "Channels two_channels = [Float32Channel (Some speed), Int16Channel (Some rpm)]"
  by (simp add: two_channels_def AddChannels_def session_def)

lemma sample_count_examples:
  "sample_count (Some speed) = 3" "sample_count (Some rpm) = 2"
  by (simp_all add: sample_count_def speed_def rpm_def)

lemma output_end_two_channels: "output_end two_channels = 4540"
  by (simp add: output_end_def Channels_two_channels data_total_def slot_eq
      length_sample_bytes_le32 length_sample_bytes_le16 sample_count_examples)

lemma Data_examples:
  "Data speed = Some [0, 0x41280000, 0x41CA6666]" "Data rpm = Some [800, 1200]"
  by (simp_all add: speed_def rpm_def)

lemma sound_examples:
  "sound (Float32Channel (Some speed))" "sound (Int16Channel (Some rpm))"
  "loaded (Some speed)" "loaded (Some rpm)" "sound Other"
  by (simp_all add: sound_def loaded_def Data_examples)

lemma os_Write_all_fail:
  "faulty fd = (\<lambda>n. True) \<Longrightarrow>
     fst (os_Write fd b) = fd\<lparr>history := history fd @ [Write_call b False]\<rparr>"
  by (simp add: os_Write_def)

lemma os_Seek_all_fail:
  "faulty fd = (\<lambda>n. True) \<Longrightarrow>
     fst (os_Seek fd off) = fd\<lparr>history := history fd @ [Seek_call off False]\<rparr>"
  by (simp add: os_Seek_def)

lemma faulty_broken: "faulty broken = (\<lambda>n. True)" and history_broken: "history broken = []"
  by (simp_all add: broken_def)

lemma all_calls_fail_run:
  "fst (File_Write two_channels broken) = Inr ()
   \<and> map succeeded (history (snd (File_Write two_channels broken)))
       = [False, False, False, False, False, False, False, False, False, False,
          False, False, False, False, False]"
  by (simp add: File_Write_leading leading_def Let_def Channels_two_channels
      element_Write_def Channel_Write_def Data_examples
      os_Write_all_fail os_Seek_all_fail faulty_broken history_broken)

lemma faulty_flaky: "faulty flaky = (\<lambda>n. n = 0)" and history_flaky: "history flaky = []"
  by (simp_all add: flaky_def)

lemma seek_write_after_first:
  assumes "faulty fd = (\<lambda>n. n = 0)" and "history fd \<noteq> []" and "off = int a"
  shows "fst (os_Write (fst (os_Seek fd off)) b) = write_at fd a b"
  using assms by (simp add: os_Write_def os_Seek_def write_at_def cong: if_cong)

lemma flaky_file: "contents flaky = (\<lambda>a. 0)" "extent flaky = 0"
  by (simp_all add: flaky_def)

lemma leading_flaky:
  "leading f flaky =
     write_at (write_at (write_at
        (flaky\<lparr>history := [Write_call (encode_head (File_head f)) False]\<rparr>)
        1762 (encode_event (File_event f)))
        2916 (encode_venue (File_venue f)))
        4016 (encode_vehicle (File_vehicle f))"
proof -
  let ?fd1 = "flaky\<lparr>history := [Write_call (encode_head (File_head f)) False]\<rparr>"
  have 1: "fst (os_Write flaky (encode_head (File_head f))) = ?fd1"
    by (simp add: os_Write_def faulty_flaky history_flaky)
  have f1: "faulty ?fd1 = (\<lambda>n. n = 0)" "history ?fd1 \<noteq> []"
    by (simp_all add: faulty_flaky)
  let ?fd2 = "write_at ?fd1 1762 (encode_event (File_event f))"
  have 2: "fst (os_Write (fst (os_Seek ?fd1 (sint eventPointer))) (encode_event (File_event f)))
             = ?fd2"
    using f1 by (rule seek_write_after_first) (simp add: sint_pointers)
  have f2: "faulty ?fd2 = (\<lambda>n. n = 0)" "history ?fd2 \<noteq> []"
    using f1 by simp_all
  let ?fd3 = "write_at ?fd2 2916 (encode_venue (File_venue f))"
  have 3: "fst (os_Write (fst (os_Seek ?fd2 (sint venuePointer))) (encode_venue (File_venue f)))
             = ?fd3"
    using f2 by (rule seek_write_after_first) (simp add: sint_pointers)
  have f3: "faulty ?fd3 = (\<lambda>n. n = 0)" "history ?fd3 \<noteq> []"
    using f2 by simp_all
  have 4: "fst (os_Write (fst (os_Seek ?fd3 (sint vehiclePointer)))
             (encode_vehicle (File_vehicle f)))
             = write_at ?fd3 4016 (encode_vehicle (File_vehicle f))"
    using f3 by (rule seek_write_after_first) (simp add: sint_pointers)
  show ?thesis
    unfolding leading_def Let_def by (simp only: 1 2 3 4)
qed

lemma first_call_fails_run:
  "fst (File_Write session flaky) = Inr ()
   \<and> map succeeded (history (snd (File_Write session flaky)))
       = [False, True, True, True, True, True, True]
   \<and> extent (snd (File_Write session flaky)) = 4276
   \<and> read_at (snd (File_Write session flaky)) 0 1762 = zeros 1762
   \<and> read_at (snd (File_Write session flaky)) 1762 1154 = encode_event (File_event session)"
proof -
  have c: "Channels session = []"
    by (simp add: session_def)
  have w: "File_Write session flaky = (Inr (), leading session flaky)"
    by (simp add: File_Write_leading c)
  have z: "read_at (leading session flaky) 0 1762 = zeros 1762"
    by (rule read_at_eq) (simp_all add: leading_flaky flaky_file zeros_def)
  have e: "read_at (leading session flaky) 1762 1154 = encode_event (File_event session)"
    by (rule read_at_eq) (simp_all add: leading_flaky leading_lengths)
  have x: "extent (leading session flaky) = 4276"
    by (simp add: leading_flaky leading_lengths leading_nonempty flaky_file)
  have h: "map succeeded (history (leading session flaky))
       = [False, True, True, True, True, True, True]"
    by (simp add: leading_flaky history_flaky)
  show ?thesis
    by (simp add: w z e x h)
qed

lemma history_os_Write_exact:
  "history (fst (os_Write fd b))
     = history fd @ [Write_call b (\<not> faulty fd (length (history fd)))]"
  by (simp add: os_Write_def)

lemma history_os_Seek_exact:
  "history (fst (os_Seek fd off))
     = history fd @ [Seek_call off (\<not> (faulty fd (length (history fd)) \<or> off < 0))]"
  by (simp add: os_Seek_def)

lemma Channel_Write_history:
  assumes "Data c = Some d"
  shows "\<exists>o1 o2 o3 o4.
           history (snd (Channel_Write T put (Some c) fd n k mp dp))
             = history fd @ [Seek_call (sint (currentMetaPointer n mp)) o1,
                             Write_call (encode_meta (channelMeta T c d n k mp dp)) o2,
                             Seek_call (sint dp) o3,
                             Write_call (concat (map put d)) o4]"
  using assms
  by (simp add: Channel_Write_def Let_def history_os_Write_exact history_os_Seek_exact)

lemma channelMeta_scaling:
  "Shift (channelMeta T c d n k mp dp) = 0 \<and> Mul (channelMeta T c d n k mp dp) = 1
   \<and> Scale (channelMeta T c d n k mp dp) = 1 \<and> DecPlaces (channelMeta T c d n k mp dp) = 0"
  by (simp add: channelMeta_def Let_def)

lemma encode_meta_scaling:
  "take 8 (drop 24 (encode_meta (channelMeta T c d n k mp dp))) = [0, 0, 1, 0, 1, 0, 0, 0]"
  by (simp add: encode_meta_def channelMeta_def Let_def le16_def)

lemma element_meta_cases:
  assumes "element_meta e n k mp dp = Some m"
  obtains (f32) c d where "e = Float32Channel (Some c)" "Data c = Some d"
      "m = channelMeta T_float32 c d n k mp dp"
  | (i16) c d where "e = Int16Channel (Some c)" "Data c = Some d"
      "m = channelMeta T_int16 c d n k mp dp"
  | (i32) c d where "e = Int32Channel (Some c)" "Data c = Some d"
      "m = channelMeta T_int32 c d n k mp dp"
  using assms by (cases e) (auto simp: channel_meta_def split: option.splits)

lemma element_meta_scaling:
  assumes "element_meta e n k mp dp = Some m"
  shows "Shift m = 0 \<and> Mul m = 1 \<and> Scale m = 1 \<and> DecPlaces m = 0
         \<and> take 8 (drop 24 (encode_meta m)) = [0, 0, 1, 0, 1, 0, 0, 0]"
  using assms by (cases rule: element_meta_cases) (simp_all add: channelMeta_scaling encode_meta_scaling)

lemma File_Write_slot:
  assumes "\<forall>e\<in>set (Channels f). sound e"
    and "length (Channels f) \<le> 65536"
    and "output_end f < 2 ^ 63"
    and "i < length (Channels f)"
    and "writable (Channels f ! i)"
  obtains m where
    "element_meta (Channels f ! i) (of_nat i) (of_nat (length (Channels f)))
       channelsMetaPointer (channelsDataPointer f + of_nat (data_before (Channels f) i)) = Some m"
    "read_at (snd (File_Write f created)) (slot i) 124 = encode_meta m"
proof -
  from assms(5) obtain m where m:
    "element_meta (Channels f ! i) (of_nat i) (of_nat (length (Channels f)))
       channelsMetaPointer (channelsDataPointer f + of_nat (data_before (Channels f) i)) = Some m"
    using element_meta_None [of "Channels f ! i" "of_nat i" "of_nat (length (Channels f))"
        channelsMetaPointer "channelsDataPointer f + of_nat (data_before (Channels f) i)"]
    by auto
  have "read_at (snd (File_Write f created)) (slot i) 124 = encode_meta m"
    using assms(1-4) m by (rule File_Write_meta)
  with m show thesis
    by (rule that)
qed

lemma read_at_sub:
  assumes "read_at fd a n = b" and "off + l \<le> n"
  shows "read_at fd (a + off) l = take l (drop off b)"
proof -
  have "length b = n"
    using assms(1) by (auto simp: read_at_def)
  have "\<And>x. x < n \<Longrightarrow> contents fd (a + x) = b ! x"
    using assms(1) by (auto simp: read_at_def)
  then have "\<And>x. x < l \<Longrightarrow> contents fd (a + off + x) = take l (drop off b) ! x"
    using assms(2) \<open>length b = n\<close> by (simp add: add.assoc)
  moreover have "length (take l (drop off b)) = l"
    using assms(2) \<open>length b = n\<close> by simp
  ultimately show ?thesis
    by (intro read_at_eq) simp_all
qed

lemma unat_of_nat16: "n < 65536 \<Longrightarrow> unat (of_nat n :: 16 word) = n"
  by (simp add: unat_of_nat)

lemma unat_ucast_32: "unat (x :: 64 word) < 2 ^ 32 \<Longrightarrow> unat (ucast x :: 32 word) = unat x"
  by (simp add: unsigned_ucast_eq take_bit_eq_mod)

lemma unat_slot_word:
  "n < 65536 \<Longrightarrow>
     unat (channelsMetaPointer + channelMetaSize * ucast (of_nat n :: 16 word)) = slot n"
proof -
  assume n: "n < 65536"
  then have "4276 + 124 * n < (2::nat) ^ 64"
    by simp
  then show ?thesis
    using n by (simp add: pointers unat_word_ariths unat_ucast16 unat_of_nat16 slot_eq)
qed

lemma slot_small: "n \<le> 65536 \<Longrightarrow> slot n < 2 ^ 32"
  by (simp add: slot_eq)

lemma previous_pointer:
  assumes "i < 65536"
  shows "unat (PreviousMetaPointer (channelMeta T c d (of_nat i) k channelsMetaPointer dp))
           = (if i = 0 then 0 else slot (i - 1))"
proof (cases "i = 0")
  case True
  then show ?thesis
    by (simp add: channelMeta_def Let_def previousMetaPointer_def)
next
  case False
  then have pos: "(of_nat i :: 16 word) > 0"
    using assms by (simp add: word_less_nat_alt unat_of_nat16)
  have "(of_nat i :: 16 word) - 1 = of_nat (i - 1)"
    using False by (cases i) simp_all
  then have "previousMetaPointer (of_nat i) channelsMetaPointer
               = channelsMetaPointer + channelMetaSize * ucast (of_nat (i - 1) :: 16 word)"
    using pos by (simp add: previousMetaPointer_def)
  moreover have "unat (channelsMetaPointer + channelMetaSize * ucast (of_nat (i - 1) :: 16 word))
                   = slot (i - 1)"
    using assms by (intro unat_slot_word) simp
  moreover have "slot (i - 1) < 2 ^ 32"
    using assms by (intro slot_small) simp
  ultimately show ?thesis
    using False by (simp add: channelMeta_def Let_def unat_ucast_32)
qed

lemma next_pointer:
  assumes "i < k" and "k \<le> 65536"
  shows "unat (NextMetaPointer (channelMeta T c d (of_nat i) (of_nat k) channelsMetaPointer dp))
           = (if i = k - 1 then 0 else slot (i + 1))"
proof -
  obtain j where k: "k = Suc j"
    using assms(1) by (cases k) simp_all
  have j: "j < 65536"
    using assms(2) k by simp
  have "(of_nat k :: 32 word) - 1 = of_nat j"
    by (simp add: k)
  moreover have "unat (ucast (of_nat j :: 32 word) :: 16 word) = j"
    using j by (simp add: unsigned_ucast_eq take_bit_eq_mod unat_of_nat)
  moreover have "unat (of_nat i :: 16 word) = i"
    using assms by (intro unat_of_nat16) simp
  ultimately have lt: "(of_nat i :: 16 word) < ucast ((of_nat k :: 32 word) - 1) \<longleftrightarrow> i < k - 1"
    by (simp add: word_less_nat_alt k)
  show ?thesis
  proof (cases "i = k - 1")
    case True
    then show ?thesis
      using lt by (simp add: channelMeta_def Let_def nextMetaPointer_def)
  next
    case False
    then have i: "i < k - 1"
      using assms(1) by simp
    have "(of_nat i :: 16 word) + 1 = of_nat (i + 1)"
      by simp
    then have "nextMetaPointer (of_nat i) (of_nat k) channelsMetaPointer
               = channelsMetaPointer + channelMetaSize * ucast (of_nat (i + 1) :: 16 word)"
      using lt i by (simp add: nextMetaPointer_def add.commute)
    moreover have "unat (channelsMetaPointer + channelMetaSize * ucast (of_nat (i + 1) :: 16 word))
                   = slot (i + 1)"
      using assms i by (intro unat_slot_word) simp
    moreover have "slot (i + 1) < 2 ^ 32"
      using assms i by (intro slot_small) simp
    ultimately show ?thesis
      using False by (simp add: channelMeta_def Let_def unat_ucast_32)
  qed
qed

lemma element_meta_links:
  assumes "element_meta e (of_nat i) (of_nat k) channelsMetaPointer dp = Some m"
    and "i < k" and "k \<le> 65536"
  shows "unat (PreviousMetaPointer m) = (if i = 0 then 0 else slot (i - 1))
         \<and> unat (NextMetaPointer m) = (if i = k - 1 then 0 else slot (i + 1))"
proof -
  have i: "i < 65536"
    using assms(2,3) by simp
  from assms(1) show ?thesis
    by (cases rule: element_meta_cases)
      (simp_all only: previous_pointer [OF i] next_pointer [OF assms(2,3)] simp_thms)
qed

lemma File_Write_never_written:
  assumes "output_end f < 2 ^ 63"
    and "i < length (Channels f)"
    and "\<forall>j<length (Channels f). writable (Channels f ! j) \<longrightarrow> j mod 65536 \<noteq> i"
  shows "read_at (snd (File_Write f created)) (slot i) 124 = zeros 124"
proof (rule read_at_eq)
  show "length (zeros 124) = 124" by simp
  fix x :: nat assume x: "x < 124"
  have dp: "unat (channelsDataPointer f) = slot (length (Channels f))"
    using assms(1) by (intro unat_channelsDataPointer) (simp add: output_end_def)
  have "contents (snd (write_channels (Channels f) (leading f created) 0
           (of_nat (length (Channels f))) channelsMetaPointer (channelsDataPointer f)))
           (slot i + x) = contents (leading f created) (slot i + x)"
    using healthy_leading
  proof (rule write_channels_untouched)
    show "unat (channelsDataPointer f) + data_total (Channels f) < 2 ^ 63"
      using assms(1) dp by (simp add: output_end_def)
    show "\<forall>j<length (Channels f). writable (Channels f ! j) \<longrightarrow>
           \<not> (slot ((0 + j) mod 65536) \<le> slot i + x
              \<and> slot i + x < slot ((0 + j) mod 65536) + 124)"
    proof (intro allI impI)
      fix j assume j: "j < length (Channels f)" "writable (Channels f ! j)"
      then have "j mod 65536 \<noteq> i" using assms(3) by auto
      then show "\<not> (slot ((0 + j) mod 65536) \<le> slot i + x
              \<and> slot i + x < slot ((0 + j) mod 65536) + 124)"
        using x by (auto simp: slot_eq)
    qed
    show "\<not> (unat (channelsDataPointer f) \<le> slot i + x
            \<and> slot i + x < unat (channelsDataPointer f) + data_total (Channels f))"
      using assms(2) x by (simp add: dp slot_eq)
  qed
  then show "contents (snd (File_Write f created)) (slot i + x) = zeros 124 ! x"
    using x by (simp add: File_Write_leading contents_leading slot_eq zeros_def)
qed

lemma write_channels_first_record:
  assumes "healthy fd"
    and "element_meta e (of_nat i) k channelsMetaPointer dp = Some m"
    and "unat dp + length (element_bytes e) < 2 ^ 63"
  shows "\<exists>h. history (snd (write_channels (e # rest) fd i k channelsMetaPointer dp))
           = history fd @ [Seek_call (int (slot (i mod 65536))) True,
                           Write_call (encode_meta m) True,
                           Seek_call (int (unat dp)) True,
                           Write_call (element_bytes e) True] @ h"
proof -
  let ?fd1 = "write_at (write_at fd (slot (i mod 65536)) (encode_meta m))
                (unat dp) (element_bytes e)"
  have "writable e"
    using assms(2) element_meta_None [of e "of_nat i" k channelsMetaPointer dp] by auto
  then have "sound e"
    by (simp add: sound_def)
  with assms(1)
  have "element_Write e fd i k channelsMetaPointer dp =
           (Inr (dp + of_nat (length (element_bytes e))),
            case element_meta e (of_nat i) k channelsMetaPointer dp of
              None \<Rightarrow> fd
            | Some m \<Rightarrow> write_at (write_at fd (slot (i mod 65536)) (encode_meta m))
                         (unat dp) (element_bytes e))"
    using assms(3) by (rule element_Write_effect)
  then have step: "element_Write e fd i k channelsMetaPointer dp =
           (Inr (dp + of_nat (length (element_bytes e))), ?fd1)"
    using assms(2) by simp
  obtain h where "history (snd (write_channels rest ?fd1 (Suc i) k channelsMetaPointer
                    (dp + of_nat (length (element_bytes e))))) = history ?fd1 @ h"
    using history_write_channels by blast
  then have "history (snd (write_channels (e # rest) fd i k channelsMetaPointer dp))
           = history fd @ [Seek_call (int (slot (i mod 65536))) True,
                           Write_call (encode_meta m) True,
                           Seek_call (int (unat dp)) True,
                           Write_call (element_bytes e) True] @ h"
    by (simp add: step)
  then show ?thesis ..
qed

lemma File_Write_first_record:
  assumes "Channels f = e # rest"
    and "element_meta e 0 (of_nat (length (Channels f))) channelsMetaPointer
           (channelsDataPointer f) = Some m"
    and "unat (channelsDataPointer f) + length (element_bytes e) < 2 ^ 63"
  shows "history (snd (File_Write f created)) ! 8 = Write_call (encode_meta m) True"
proof -
  have m: "element_meta e (of_nat 0) (of_nat (length (Channels f))) channelsMetaPointer
           (channelsDataPointer f) = Some m"
    using assms(2) by simp
  have W: "File_Write f created
             = write_channels (e # rest) (leading f created) 0 (of_nat (length (Channels f)))
                 channelsMetaPointer (channelsDataPointer f)"
    by (subst File_Write_leading) (simp add: assms(1))
  from write_channels_first_record [OF healthy_leading m assms(3), of rest]
  obtain h where "history (snd (File_Write f created))
           = history (leading f created) @ [Seek_call (int (slot (0 mod 65536))) True,
                           Write_call (encode_meta m) True,
                           Seek_call (int (unat (channelsDataPointer f))) True,
                           Write_call (element_bytes e) True] @ h"
    unfolding W by blast
  then show ?thesis
    by (simp add: history_leading nth_append)
qed

lemma data_total_replicate: "data_total (replicate n e) = n * length (element_bytes e)"
  by (induction n) simp_all

lemma Channels_many_channels:
  "Channels many_channels = replicate 65537 (Float32Channel (Some speed))"
  by (simp add: many_channels_def)

lemma many_channels_Cons:
  "Channels many_channels
     = Float32Channel (Some speed) # replicate 65536 (Float32Channel (Some speed))"
proof -
  have "replicate (Suc 65536) (Float32Channel (Some speed))
          = Float32Channel (Some speed) # replicate 65536 (Float32Channel (Some speed))"
    by (rule replicate_Suc)
  then show ?thesis
    by (simp add: Channels_many_channels)
qed

lemma output_end_many_channels: "output_end many_channels = 8917308"
  by (simp add: output_end_def Channels_many_channels data_total_replicate slot_eq
      length_sample_bytes_le32 sample_count_examples)

lemma next_pointer_wraps:
  "NextMetaPointer (channelMeta T c d 0 65537 mp dp) = 0"
  by (simp add: channelMeta_def Let_def nextMetaPointer_def)

lemma length_element_bytes: "length (element_bytes e) = element_width e * element_samples e"
  by (cases e)
    (simp_all add: length_sample_bytes_le32 length_sample_bytes_le16 DataTypeFloat32_def
      DataTypeInt16_def DataTypeInt32_def)

lemma data_total_sum:
  "data_total cs = sum_list (map (\<lambda>e. element_width e * element_samples e) cs)"
  by (simp add: data_total_def length_element_bytes)

lemma data_before_length: "data_before cs (length cs) = data_total cs"
  by (simp add: data_before_def data_total_def)

lemma data_before_Suc_nth:
  "i < length cs \<Longrightarrow>
     data_before cs (Suc i) = data_before cs i + length (element_bytes (cs ! i))"
  by (simp add: data_before_def take_Suc_conv_app_nth)

lemma data_before_mono:
  "j < i \<Longrightarrow> i \<le> length cs \<Longrightarrow>
     data_before cs j + length (element_bytes (cs ! j)) \<le> data_before cs i"
proof (induction cs arbitrary: i j)
  case Nil
  then show ?case by simp
next
  case (Cons e cs)
  from Cons.prems obtain i' where i: "i = Suc i'"
    by (cases i) simp_all
  show ?case
  proof (cases j)
    case 0
    then show ?thesis by (simp add: i)
  next
    case (Suc j')
    with Cons.prems i have "j' < i'" "i' \<le> length cs"
      by simp_all
    then have "data_before cs j' + length (element_bytes (cs ! j')) \<le> data_before cs i'"
      by (rule Cons.IH)
    then show ?thesis
      by (simp add: i Suc)
  qed
qed

lemma element_meta_data_fields:
  assumes "element_meta e n k mp dp = Some m"
  shows "DataPointer m = ucast dp \<and> DataLength m = of_nat (element_samples e)
         \<and> unat (Meta_DataTypeLength m) = element_width e"
  using assms
  by (cases rule: element_meta_cases)
    (simp_all add: channelMeta_def Let_def sample_count_def Channel_dataType_def)

lemma encode_meta_DataLength:
  "element_meta e n k mp dp = Some m \<Longrightarrow>
     take 4 (drop Meta_DataLength_offset (encode_meta m)) = le32 (DataLength m)"
  by (simp add: encode_meta_def Meta_DataLength_offset_def)

lemma Channels_long_run:
  "Channels long_run = [Int16Channel (Some (rpm\<lparr>Data := Some (replicate 4294967296 0)\<rparr>))]"
  by (simp add: long_run_def)

lemma sample_count_long_run:
  "sample_count (Some (rpm\<lparr>Data := Some (replicate 4294967296 0)\<rparr>)) = 4294967296"
  by (simp add: sample_count_def)

lemma output_end_long_run: "output_end long_run = 8589938992"
  by (simp add: output_end_def Channels_long_run data_total_def slot_eq
      length_sample_bytes_le16 sample_count_long_run)

lemma sound_not_writable: "sound e \<Longrightarrow> \<not> writable e \<Longrightarrow> e = Other"
  by (simp add: sound_def)

lemma File_Write_Other_slot:
  assumes "length (Channels f) \<le> 65536"
    and "output_end f < 2 ^ 63"
    and "i < length (Channels f)"
    and "\<not> writable (Channels f ! i)"
  shows "read_at (snd (File_Write f created)) (slot i) 124 = zeros 124"
  using assms(2,3)
proof (rule File_Write_never_written)
  show "\<forall>j<length (Channels f). writable (Channels f ! j) \<longrightarrow> j mod 65536 \<noteq> i"
  proof (intro allI impI)
    fix j assume "j < length (Channels f)" "writable (Channels f ! j)"
    then have "j \<noteq> i" "j mod 65536 = j"
      using assms(1,4) by auto
    then show "j mod 65536 \<noteq> i" by simp
  qed
qed

lemma encode_meta_DataType:
  assumes "element_meta e n k mp dp = Some m"
  shows "take 4 (drop Meta_DataType_offset (encode_meta m))
           = (case e of Float32Channel _ \<Rightarrow> le16 7 @ le16 4
              | Int16Channel _ \<Rightarrow> le16 3 @ le16 2
              | Int32Channel _ \<Rightarrow> le16 5 @ le16 4
              | Other \<Rightarrow> zeros 4)"
  using assms
  by (cases rule: element_meta_cases)
    (simp_all add: encode_meta_def Meta_DataType_offset_def channelMeta_def Let_def
      Channel_dataType_def DataTypeFloat32_def DataTypeInt16_def DataTypeInt32_def)

lemma element_meta_ChannelId:
  "element_meta e n k mp dp = Some m \<Longrightarrow> ChannelId m = 0x2EE1 + n"
  by (erule element_meta_cases) (simp_all add: channelMeta_def Let_def)

lemma Channels_with_stranger:
  "Channels with_stranger = [Float32Channel (Some speed), Other, Int16Channel (Some rpm)]"
  by (simp add: with_stranger_def AddChannels_def session_def)

lemma output_end_with_stranger: "output_end with_stranger = 4664"
  by (simp add: output_end_def Channels_with_stranger data_total_def slot_eq
      length_sample_bytes_le32 length_sample_bytes_le16 sample_count_examples)

lemma write_channels_skip:
  "write_channels (replicate n Other @ cs) fd i k mp dp = write_channels cs fd (i + n) k mp dp"
  by (induction n arbitrary: i) (simp_all add: element_Write_def)

lemma Channels_late_channel:
  "Channels late_channel = replicate 65536 Other @ [Float32Channel (Some speed)]"
  by (simp add: late_channel_def)

lemma data_total_append: "data_total (xs @ ys) = data_total xs + data_total ys"
  by (simp add: data_total_def)

lemma output_end_late_channel: "output_end late_channel = 8130876"
  by (simp add: output_end_def Channels_late_channel data_total_append data_total_replicate
      slot_eq length_sample_bytes_le32 sample_count_examples)

lemma encode_meta_ChannelId:
  "take 2 (drop Meta_ChannelId_offset (encode_meta (channelMeta T c d n k mp dp)))
     = le16 (0x2EE1 + n)"
  by (simp add: encode_meta_def channelMeta_def Let_def Meta_ChannelId_offset_def)

lemma late_channel_record:
  "read_at (snd (File_Write late_channel created)) (slot 0) 124
     = encode_meta (channelMeta T_float32 speed [0, 0x41280000, 0x41CA6666] 0 65537
         channelsMetaPointer (channelsDataPointer late_channel))"
proof -
  let ?m = "channelMeta T_float32 speed [0, 0x41280000, 0x41CA6666] 0 65537
         channelsMetaPointer (channelsDataPointer late_channel)"
  let ?e = "Float32Channel (Some speed)"
  let ?dp = "channelsDataPointer late_channel"
  have dp: "unat ?dp = slot 65537"
    using unat_channelsDataPointer [of late_channel]
    by (simp add: Channels_late_channel slot_eq)
  have z: "(65536 :: 16 word) = 0"
    by simp
  have m: "element_meta ?e (of_nat 65536) 65537 channelsMetaPointer ?dp = Some ?m"
    by (simp add: channel_meta_def Data_examples z)
  have len: "length (encode_meta ?m) = 124"
    using m by (rule element_meta_length)
  have "element_Write ?e (leading late_channel created) 65536 65537 channelsMetaPointer ?dp =
           (Inr (?dp + of_nat (length (element_bytes ?e))),
            case element_meta ?e (of_nat 65536) 65537 channelsMetaPointer ?dp of
              None \<Rightarrow> leading late_channel created
            | Some m \<Rightarrow> write_at (write_at (leading late_channel created)
                           (slot (65536 mod 65536)) (encode_meta m))
                         (unat ?dp) (element_bytes ?e))"
    using healthy_leading sound_examples(1)
    by (rule element_Write_effect)
       (simp add: dp slot_eq length_sample_bytes_le32 sample_count_examples)
  then have step: "element_Write ?e (leading late_channel created) 65536 65537
           channelsMetaPointer ?dp =
           (Inr (?dp + of_nat (length (element_bytes ?e))),
            write_at (write_at (leading late_channel created) (slot 0) (encode_meta ?m))
                         (unat ?dp) (element_bytes ?e))"
    by (simp only: m option.case) simp
  have W: "File_Write late_channel created
             = write_channels [?e] (leading late_channel created) 65536 65537
                 channelsMetaPointer ?dp"
    by (simp add: File_Write_leading Channels_late_channel write_channels_skip)
  show ?thesis
  proof (rule read_at_eq)
    show "length (encode_meta ?m) = 124" by (rule len)
    fix x :: nat assume "x < 124"
    then show "contents (snd (File_Write late_channel created)) (slot 0 + x)
                 = encode_meta ?m ! x"
      by (simp add: W step len dp slot_eq)
  qed
qed

section \<open>I/O errors\<close>

text \<open>
  Claim C1 says that \<open>File.Write\<close> fails with an I/O error as soon as a write or a
  seek fails, and aborts the remaining writes. The code drops every error that \<open>Seek\<close>
  and \<open>binary.Write\<close> return. On a descriptor on which every call fails, a file with two
  channels still makes all its 15 calls and returns normally. On a descriptor on which
  only the first call (the header write) fails, the six calls that follow are made and
  succeed: \<open>File.Write\<close> returns normally and leaves a file of 4276 bytes whose first
  1762 bytes, the header's place, are a hole, followed by the event record.
\<close>

theorem write_errors_dropped:
  "fst (File_Write two_channels broken) = Inr ()
   \<and> map succeeded (history (snd (File_Write two_channels broken)))
       = [False, False, False, False, False, False, False, False, False, False,
          False, False, False, False, False]
   \<and> fst (File_Write session flaky) = Inr ()
   \<and> map succeeded (history (snd (File_Write session flaky)))
       = [False, True, True, True, True, True, True]
   \<and> extent (snd (File_Write session flaky)) = 4276
   \<and> read_at (snd (File_Write session flaky)) 0 1762 = zeros 1762
   \<and> read_at (snd (File_Write session flaky)) 1762 1154 = encode_event (File_event session)"
  using all_calls_fail_run first_call_fails_run by simp

section \<open>The chain of metadata records\<close>

text \<open>
  Claim C2, amended. Let the file have at most 65536 elements, none of them a nil channel
  or a channel with nil data, and let the output end below \<open>2 ^ 63\<close>. Then for every
  index \<open>i\<close> of a channel, the 124 bytes at the offset of record \<open>i\<close> in the written
  file are the encoding of a record whose previous pointer is 0 exactly when \<open>i = 0\<close>,
  whose next pointer is 0 exactly when \<open>i\<close> is the last index, and whose other links
  are the offsets of records \<open>i - 1\<close> and \<open>i + 1\<close>.
\<close>

theorem metadata_chain:
  assumes "\<forall>e\<in>set (Channels f). sound e"
    and "length (Channels f) \<le> 65536"
    and "output_end f < 2 ^ 63"
    and "i < length (Channels f)"
    and "writable (Channels f ! i)"
  shows "\<exists>m. fst (File_Write f created) = Inr ()
           \<and> read_at (snd (File_Write f created)) (slot i) LdFileChannelMeta_Size = encode_meta m
           \<and> (PreviousMetaPointer m = 0 \<longleftrightarrow> i = 0)
           \<and> (NextMetaPointer m = 0 \<longleftrightarrow> i = length (Channels f) - 1)
           \<and> (i \<noteq> 0 \<longrightarrow> unat (PreviousMetaPointer m) = slot (i - 1))
           \<and> (i \<noteq> length (Channels f) - 1 \<longrightarrow> unat (NextMetaPointer m) = slot (i + 1))"
proof -
  from assms obtain m where m:
    "element_meta (Channels f ! i) (of_nat i) (of_nat (length (Channels f)))
       channelsMetaPointer (channelsDataPointer f + of_nat (data_before (Channels f) i)) = Some m"
    and r: "read_at (snd (File_Write f created)) (slot i) 124 = encode_meta m"
    by (rule File_Write_slot)
  have links: "unat (PreviousMetaPointer m) = (if i = 0 then 0 else slot (i - 1))
         \<and> unat (NextMetaPointer m) = (if i = length (Channels f) - 1 then 0 else slot (i + 1))"
    using m assms(4,2) by (rule element_meta_links)
  have pos: "\<And>n. slot n \<noteq> 0"
    by (simp add: slot_eq)
  have lp: "unat (PreviousMetaPointer m) = (if i = 0 then 0 else slot (i - 1))"
    and ln: "unat (NextMetaPointer m) = (if i = length (Channels f) - 1 then 0 else slot (i + 1))"
    using links by (rule conjunct1, rule conjunct2)
  have p0: "PreviousMetaPointer m = 0 \<longleftrightarrow> i = 0"
  proof (cases "i = 0")
    case True
    with lp have "unat (PreviousMetaPointer m) = 0" by simp
    then have "PreviousMetaPointer m = 0" by (simp only: unat_eq_0)
    then show ?thesis using True by simp
  next
    case False
    with lp pos [of "i - 1"] have "unat (PreviousMetaPointer m) \<noteq> 0" by simp
    then have "PreviousMetaPointer m \<noteq> 0" by (simp only: unat_eq_0) simp
    then show ?thesis using False by simp
  qed
  have n0: "NextMetaPointer m = 0 \<longleftrightarrow> i = length (Channels f) - 1"
  proof (cases "i = length (Channels f) - 1")
    case True
    with ln have "unat (NextMetaPointer m) = 0" by simp
    then have "NextMetaPointer m = 0" by (simp only: unat_eq_0)
    then show ?thesis using True by simp
  next
    case False
    with ln pos [of "i + 1"] have "unat (NextMetaPointer m) \<noteq> 0" by simp
    then have "NextMetaPointer m \<noteq> 0" by (simp only: unat_eq_0) simp
    then show ?thesis using False by simp
  qed
  have p: "i \<noteq> 0 \<longrightarrow> unat (PreviousMetaPointer m) = slot (i - 1)"
    using lp by simp
  have n: "i \<noteq> length (Channels f) - 1 \<longrightarrow> unat (NextMetaPointer m) = slot (i + 1)"
    using ln by simp
  have ok: "fst (File_Write f created) = Inr ()"
    using assms(1) by (rule File_Write_returns)
  have r': "read_at (snd (File_Write f created)) (slot i) LdFileChannelMeta_Size = encode_meta m"
    using r by (simp add: sizes)
  show ?thesis
    by (intro exI [of _ m] conjI) (fact ok r' p0 n0 p n)+
qed

text \<open>The second of two channels: its previous pointer is 4276, its next pointer 0.\<close>

theorem metadata_chain_witness:
  "list_all sound (Channels two_channels)
   \<and> length (Channels two_channels) \<le> 65536
   \<and> output_end two_channels < 2 ^ 63
   \<and> 1 < length (Channels two_channels)
   \<and> writable (Channels two_channels ! 1)
   \<and> (\<exists>m. fst (File_Write two_channels created) = Inr ()
           \<and> read_at (snd (File_Write two_channels created)) (slot 1) LdFileChannelMeta_Size
                = encode_meta m
           \<and> unat (PreviousMetaPointer m) = 4276
           \<and> NextMetaPointer m = 0)"
proof -
  have 1: "\<forall>e\<in>set (Channels two_channels). sound e"
    by (simp add: Channels_two_channels sound_examples)
  have 2: "length (Channels two_channels) \<le> 65536"
    by (simp add: Channels_two_channels)
  have 3: "output_end two_channels < 2 ^ 63"
    by (simp add: output_end_two_channels)
  have 4: "1 < length (Channels two_channels)"
    by (simp add: Channels_two_channels)
  have 5: "writable (Channels two_channels ! 1)"
    by (simp add: Channels_two_channels sound_examples)
  from metadata_chain [OF 1 2 3 4 5]
  obtain m where "fst (File_Write two_channels created) = Inr ()"
    "read_at (snd (File_Write two_channels created)) (slot 1) LdFileChannelMeta_Size
                = encode_meta m"
    "NextMetaPointer m = 0 \<longleftrightarrow> 1 = length (Channels two_channels) - 1"
    "(1::nat) \<noteq> 0 \<longrightarrow> unat (PreviousMetaPointer m) = slot (1 - 1)"
    by blast
  then have "fst (File_Write two_channels created) = Inr ()
           \<and> read_at (snd (File_Write two_channels created)) (slot 1) LdFileChannelMeta_Size
                = encode_meta m
           \<and> unat (PreviousMetaPointer m) = 4276
           \<and> NextMetaPointer m = 0"
    by (simp add: Channels_two_channels slot_eq)
  then have "\<exists>m. fst (File_Write two_channels created) = Inr ()
           \<and> read_at (snd (File_Write two_channels created)) (slot 1) LdFileChannelMeta_Size
                = encode_meta m
           \<and> unat (PreviousMetaPointer m) = 4276
           \<and> NextMetaPointer m = 0" ..
  with 1 2 3 4 5 show ?thesis
    by (simp only: list_all_iff simp_thms)
qed

text \<open>
  Claim C2 as stated fails for 65537 channels. The count minus one is cut to 16 bits and
  becomes 0, so the record written for channel 0 (the ninth call on the descriptor) has
  next pointer 0 although channel 0 is not the last. The index 65536 is cut to 0 as
  well, so the 124 bytes at the offset of record 65536 are never written: the previous
  pointer read there is 0 although the index is not 0.
\<close>

theorem metadata_chain_counterexample:
  "length (Channels many_channels) = 65537
   \<and> history (snd (File_Write many_channels created)) ! 8
       = Write_call (encode_meta (channelMeta T_float32 speed [0, 0x41280000, 0x41CA6666] 0
           65537 channelsMetaPointer (channelsDataPointer many_channels))) True
   \<and> NextMetaPointer (channelMeta T_float32 speed [0, 0x41280000, 0x41CA6666] 0
           65537 channelsMetaPointer (channelsDataPointer many_channels)) = 0
   \<and> read_at (snd (File_Write many_channels created)) (slot 65536) LdFileChannelMeta_Size
       = zeros LdFileChannelMeta_Size"
proof (intro conjI)
  show "length (Channels many_channels) = 65537"
    by (simp add: Channels_many_channels)
  have dp: "unat (channelsDataPointer many_channels) = slot 65537"
    using unat_channelsDataPointer [of many_channels]
    by (simp add: Channels_many_channels slot_eq)
  show "history (snd (File_Write many_channels created)) ! 8
       = Write_call (encode_meta (channelMeta T_float32 speed [0, 0x41280000, 0x41CA6666] 0
           65537 channelsMetaPointer (channelsDataPointer many_channels))) True"
    using many_channels_Cons
  proof (rule File_Write_first_record)
    show "element_meta (Float32Channel (Some speed)) 0
            (of_nat (length (Channels many_channels))) channelsMetaPointer
            (channelsDataPointer many_channels)
          = Some (channelMeta T_float32 speed [0, 0x41280000, 0x41CA6666] 0
           65537 channelsMetaPointer (channelsDataPointer many_channels))"
      by (simp add: channel_meta_def Data_examples Channels_many_channels)
    show "unat (channelsDataPointer many_channels)
            + length (element_bytes (Float32Channel (Some speed))) < 2 ^ 63"
      by (simp add: dp slot_eq length_sample_bytes_le32 sample_count_examples)
  qed
  show "NextMetaPointer (channelMeta T_float32 speed [0, 0x41280000, 0x41CA6666] 0
           65537 channelsMetaPointer (channelsDataPointer many_channels)) = 0"
    by (rule next_pointer_wraps)
  have "read_at (snd (File_Write many_channels created)) (slot 65536) 124 = zeros 124"
  proof (rule File_Write_never_written)
    show "output_end many_channels < 2 ^ 63"
      by (simp add: output_end_many_channels)
    show "65536 < length (Channels many_channels)"
      by (simp add: Channels_many_channels)
    show "\<forall>j<length (Channels many_channels).
            writable (Channels many_channels ! j) \<longrightarrow> j mod 65536 \<noteq> 65536"
    proof (intro allI impI)
      fix j :: nat
      have "j mod 65536 < 65536" by simp
      then show "j mod 65536 \<noteq> 65536" by simp
    qed
  qed
  then show "read_at (snd (File_Write many_channels created)) (slot 65536)
               LdFileChannelMeta_Size = zeros LdFileChannelMeta_Size"
    by (simp add: sizes)
qed

section \<open>The data region\<close>

text \<open>
  Claim C3, amended. Let every element be a channel (not nil, its data not nil), let
  there be at most 65536 of them, and let the output end below \<open>2 ^ 32\<close>. Then for every
  channel \<open>i\<close> the record at its offset in the written file holds, as data pointer, the
  data region's start plus the sample bytes of the channels before it, as data length
  its sample count and as element width the width of its type; the channel's sample
  bytes, element width times sample count of them, stand in the file from that data
  pointer on; the next channel's data starts where this one's end (with no samples, at
  the same offset), and every earlier channel's bytes end at or before this one's start;
  and the file ends after the sum, over all channels, of element width times sample
  count bytes of data.
\<close>

theorem data_region_layout:
  assumes "\<forall>e\<in>set (Channels f). writable e"
    and "length (Channels f) \<le> 65536"
    and "output_end f < 2 ^ 32"
    and "i < length (Channels f)"
  shows "\<exists>m. fst (File_Write f created) = Inr ()
     \<and> read_at (snd (File_Write f created)) (slot i) LdFileChannelMeta_Size = encode_meta m
     \<and> unat (DataPointer m) = unat (channelsDataPointer f) + data_before (Channels f) i
     \<and> unat (DataLength m) = element_samples (Channels f ! i)
     \<and> unat (Meta_DataTypeLength m) = element_width (Channels f ! i)
     \<and> read_at (snd (File_Write f created)) (unat (DataPointer m))
           (unat (Meta_DataTypeLength m) * unat (DataLength m))
         = element_bytes (Channels f ! i)
     \<and> data_before (Channels f) (Suc i)
         = data_before (Channels f) i + unat (Meta_DataTypeLength m) * unat (DataLength m)
     \<and> (j < i \<longrightarrow>
          unat (channelsDataPointer f) + data_before (Channels f) j
            + length (element_bytes (Channels f ! j)) \<le> unat (DataPointer m))
     \<and> data_before (Channels f) 0 = 0
     \<and> data_before (Channels f) (length (Channels f))
         = sum_list (map (\<lambda>e. element_width e * element_samples e) (Channels f))
     \<and> extent (snd (File_Write f created))
         = unat (channelsDataPointer f)
           + sum_list (map (\<lambda>e. element_width e * element_samples e) (Channels f))"
proof -
  let ?cs = "Channels f"
  let ?fd = "snd (File_Write f created)"
  have sound: "\<forall>e\<in>set ?cs. sound e"
    using assms(1) by (simp add: sound_def)
  have fits: "output_end f < 2 ^ 63"
    using assms(3) by simp
  have w: "writable (?cs ! i)"
    using assms(1,4) by simp
  from sound assms(2) fits assms(4) w obtain m where m:
    "element_meta (?cs ! i) (of_nat i) (of_nat (length ?cs))
       channelsMetaPointer (channelsDataPointer f + of_nat (data_before ?cs i)) = Some m"
    and r: "read_at ?fd (slot i) 124 = encode_meta m"
    by (rule File_Write_slot)
  have cdp: "unat (channelsDataPointer f) = slot (length ?cs)"
    using fits by (intro unat_channelsDataPointer) (simp add: output_end_def)
  have step: "data_before ?cs i + length (element_bytes (?cs ! i)) \<le> data_total ?cs"
    using assms(4) by (rule data_before_step)
  have small: "slot (length ?cs) + data_before ?cs i + length (element_bytes (?cs ! i)) < 2 ^ 32"
    using step assms(3) by (simp add: output_end_def)
  have fields: "DataPointer m = ucast (channelsDataPointer f + of_nat (data_before ?cs i))"
    "DataLength m = of_nat (element_samples (?cs ! i))"
    "unat (Meta_DataTypeLength m) = element_width (?cs ! i)"
    using element_meta_data_fields [OF m] by simp_all
  have "unat (channelsDataPointer f) + data_before ?cs i < 2 ^ 64"
    using small cdp by simp
  then have dpi: "unat (channelsDataPointer f + of_nat (data_before ?cs i))
                    = slot (length ?cs) + data_before ?cs i"
    using cdp by (simp add: unat_add_small)
  have dp: "unat (DataPointer m) = unat (channelsDataPointer f) + data_before ?cs i"
    using small by (simp add: fields(1) unat_ucast_32 dpi cdp)
  have wpos: "element_width (?cs ! i) \<noteq> 0"
    using w by (cases "?cs ! i")
      (simp_all add: DataTypeFloat32_def DataTypeInt16_def DataTypeInt32_def)
  have "element_samples (?cs ! i) \<le> element_width (?cs ! i) * element_samples (?cs ! i)"
    using wpos by simp
  also have "\<dots> < 2 ^ 32"
    using small by (simp add: length_element_bytes)
  finally have n: "unat (DataLength m) = element_samples (?cs ! i)"
    by (simp add: fields(2) unat_of_nat)
  have len: "unat (Meta_DataTypeLength m) * unat (DataLength m) = length (element_bytes (?cs ! i))"
    by (simp add: fields(3) n length_element_bytes)
  have data: "read_at ?fd (unat (DataPointer m))
           (unat (Meta_DataTypeLength m) * unat (DataLength m)) = element_bytes (?cs ! i)"
    using File_Write_data [OF sound assms(2) fits assms(4)]
    by (simp add: len dp cdp)
  have adv: "data_before ?cs (Suc i)
         = data_before ?cs i + unat (Meta_DataTypeLength m) * unat (DataLength m)"
    using assms(4) by (simp add: data_before_Suc_nth len)
  have total: "data_before ?cs (length ?cs)
         = sum_list (map (\<lambda>e. element_width e * element_samples e) ?cs)"
    by (simp add: data_before_length data_total_sum)
  have ext: "extent ?fd = unat (channelsDataPointer f)
           + sum_list (map (\<lambda>e. element_width e * element_samples e) ?cs)"
    using File_Write_extent [OF assms(1,2) fits]
    by (simp add: output_end_def cdp data_total_sum)
  have ok: "fst (File_Write f created) = Inr ()"
    using sound by (rule File_Write_returns)
  have r': "read_at ?fd (slot i) LdFileChannelMeta_Size = encode_meta m"
    using r by (simp add: sizes)
  have z: "data_before ?cs 0 = 0"
    by simp
  have ord: "j < i \<longrightarrow>
          unat (channelsDataPointer f) + data_before ?cs j
            + length (element_bytes (?cs ! j)) \<le> unat (DataPointer m)"
    using assms(4) by (simp add: dp data_before_mono)
  show ?thesis
    by (intro exI [of _ m] conjI) (fact ok r' dp n fields(3) data adv ord z total ext)+
qed

text \<open>
  Two channels, three \<open>float32\<close> samples and two \<open>int16\<close> samples: the second record has
  data pointer \<open>4524 + 12\<close>, data length 2, width 2; the file has 4540 bytes.
\<close>

theorem data_region_layout_witness:
  "list_all writable (Channels two_channels)
   \<and> length (Channels two_channels) \<le> 65536
   \<and> output_end two_channels < 2 ^ 32
   \<and> 1 < length (Channels two_channels)
   \<and> (\<exists>m. read_at (snd (File_Write two_channels created)) (slot 1) LdFileChannelMeta_Size
              = encode_meta m
          \<and> unat (DataPointer m) = 4536
          \<and> unat (DataLength m) = 2
          \<and> unat (Meta_DataTypeLength m) = 2
          \<and> read_at (snd (File_Write two_channels created)) 4536 4 = [0x20, 0x03, 0xB0, 0x04])
   \<and> extent (snd (File_Write two_channels created)) = 4540"
proof -
  have 1: "\<forall>e\<in>set (Channels two_channels). writable e"
    by (simp add: Channels_two_channels sound_examples)
  have 2: "length (Channels two_channels) \<le> 65536"
    by (simp add: Channels_two_channels)
  have 3: "output_end two_channels < 2 ^ 32"
    by (simp add: output_end_two_channels)
  have 4: "1 < length (Channels two_channels)"
    by (simp add: Channels_two_channels)
  have cdp: "unat (channelsDataPointer two_channels) = 4524"
    using unat_channelsDataPointer [of two_channels]
    by (simp add: Channels_two_channels slot_eq)
  have before: "data_before (Channels two_channels) (Suc 0) = 12"
    by (simp add: data_before_def Channels_two_channels length_sample_bytes_le32
        sample_count_examples)
  have bytes: "element_bytes (Channels two_channels ! Suc 0) = [0x20, 0x03, 0xB0, 0x04]"
    by (simp add: Channels_two_channels sample_bytes_def Data_examples le16_def)
  have facts: "element_samples (Channels two_channels ! Suc 0) = 2"
    "element_width (Channels two_channels ! Suc 0) = 2"
    "sum_list (map (\<lambda>e. element_width e * element_samples e) (Channels two_channels)) = 16"
    by (simp_all add: Channels_two_channels sample_count_examples DataTypeInt16_def
        DataTypeFloat32_def)
  from data_region_layout [OF 1 2 3 4]
  obtain m where m:
    "read_at (snd (File_Write two_channels created)) (slot 1) LdFileChannelMeta_Size
       = encode_meta m"
    "unat (DataPointer m)
       = unat (channelsDataPointer two_channels) + data_before (Channels two_channels) 1"
    "unat (DataLength m) = element_samples (Channels two_channels ! 1)"
    "unat (Meta_DataTypeLength m) = element_width (Channels two_channels ! 1)"
    "read_at (snd (File_Write two_channels created)) (unat (DataPointer m))
           (unat (Meta_DataTypeLength m) * unat (DataLength m))
         = element_bytes (Channels two_channels ! 1)"
    "extent (snd (File_Write two_channels created))
         = unat (channelsDataPointer two_channels)
           + sum_list (map (\<lambda>e. element_width e * element_samples e) (Channels two_channels))"
    by blast
  have dp: "unat (DataPointer m) = 4536"
    using m(2) by (simp add: cdp before)
  have "read_at (snd (File_Write two_channels created)) (slot 1) LdFileChannelMeta_Size
              = encode_meta m
          \<and> unat (DataPointer m) = 4536
          \<and> unat (DataLength m) = 2
          \<and> unat (Meta_DataTypeLength m) = 2
          \<and> read_at (snd (File_Write two_channels created)) 4536 4 = [0x20, 0x03, 0xB0, 0x04]"
    using m(1,3,4,5) dp by (simp add: facts bytes)
  then have "\<exists>m. read_at (snd (File_Write two_channels created)) (slot 1) LdFileChannelMeta_Size
              = encode_meta m
          \<and> unat (DataPointer m) = 4536
          \<and> unat (DataLength m) = 2
          \<and> unat (Meta_DataTypeLength m) = 2
          \<and> read_at (snd (File_Write two_channels created)) 4536 4 = [0x20, 0x03, 0xB0, 0x04]" ..
  moreover have "extent (snd (File_Write two_channels created)) = 4540"
    using m(6) by (simp add: cdp facts)
  ultimately show ?thesis
    using 1 2 3 4 by (simp only: list_all_iff simp_thms)
qed

text \<open>
  Claim C3 as stated fails for a channel of \<open>2 ^ 32\<close> samples of 16 bits: the data
  length stored in its record is 0, while the data region holds 8589934592 bytes.
\<close>

theorem data_region_layout_counterexample:
  "element_samples (Channels long_run ! 0) = 4294967296
   \<and> read_at (snd (File_Write long_run created)) (slot 0 + Meta_DataLength_offset) 4
       = [0, 0, 0, 0]
   \<and> unat (channelsDataPointer long_run) = 4400
   \<and> extent (snd (File_Write long_run created)) = 4400 + 8589934592"
proof (intro conjI)
  show "element_samples (Channels long_run ! 0) = 4294967296"
    by (simp add: Channels_long_run sample_count_long_run)
  have sound: "\<forall>e\<in>set (Channels long_run). sound e"
    by (simp add: Channels_long_run sound_def loaded_def)
  have w: "\<forall>e\<in>set (Channels long_run). writable e"
    by (simp add: Channels_long_run loaded_def)
  have k: "length (Channels long_run) \<le> 65536"
    by (simp add: Channels_long_run)
  have fits: "output_end long_run < 2 ^ 63"
    by (simp add: output_end_long_run)
  have i: "0 < length (Channels long_run)"
    by (simp add: Channels_long_run)
  have w0: "writable (Channels long_run ! 0)"
    by (simp add: Channels_long_run loaded_def)
  from sound k fits i w0 obtain m where m:
    "element_meta (Channels long_run ! 0) (of_nat 0) (of_nat (length (Channels long_run)))
       channelsMetaPointer
       (channelsDataPointer long_run + of_nat (data_before (Channels long_run) 0)) = Some m"
    and r: "read_at (snd (File_Write long_run created)) (slot 0) 124 = encode_meta m"
    by (rule File_Write_slot)
  have "DataLength m = of_nat (element_samples (Channels long_run ! 0))"
    using element_meta_data_fields [OF m] by simp
  then have z: "DataLength m = 0"
    by (simp add: Channels_long_run sample_count_long_run)
  have "read_at (snd (File_Write long_run created)) (slot 0 + Meta_DataLength_offset) 4
          = take 4 (drop Meta_DataLength_offset (encode_meta m))"
    using r by (rule read_at_sub) (simp add: Meta_DataLength_offset_def)
  also have "\<dots> = le32 (DataLength m)"
    using m by (rule encode_meta_DataLength)
  finally show "read_at (snd (File_Write long_run created)) (slot 0 + Meta_DataLength_offset) 4
       = [0, 0, 0, 0]"
    by (simp add: z le32_def)
  show "unat (channelsDataPointer long_run) = 4400"
    using unat_channelsDataPointer [of long_run]
    by (simp add: Channels_long_run slot_eq)
  show "extent (snd (File_Write long_run created)) = 4400 + 8589934592"
    using File_Write_extent [OF w k fits] by (simp add: output_end_long_run)
qed

section \<open>The offsets\<close>

text \<open>
  Claim C4, amended. For every channel count the offsets are the cumulative sums of the
  record sizes, the data offset minus the metadata offset is the record size times the
  channel count (in \<open>uintptr\<close> arithmetic), the header holds the event and the metadata
  offsets and the event record holds the venue offset. The header's data pointer is the
  data offset cut to 32 bits: it is the data offset when that is below \<open>2 ^ 32\<close>.
\<close>

theorem offsets_cumulative:
  "unat eventPointer = LdFileHead_Size
   \<and> unat venuePointer = unat eventPointer + LdFileEvent_Size
   \<and> unat vehiclePointer = unat venuePointer + LdFileVenue_Size
   \<and> unat channelsMetaPointer = unat vehiclePointer + LdFileVehicle_Size
   \<and> channelsDataPointer f - channelsMetaPointer
       = channelMetaSize * of_nat (length (Channels f))
   \<and> unat (EventPointer (File_head f)) = unat eventPointer
   \<and> unat (ChannelsMetaPointer (File_head f)) = unat channelsMetaPointer
   \<and> unat (VenuePointer (File_event f)) = unat venuePointer
   \<and> ChannelsDataPointer (File_head f) = ucast (channelsDataPointer f)
   \<and> (unat channelsMetaPointer + LdFileChannelMeta_Size * length (Channels f) < 2 ^ 32 \<longrightarrow>
        unat (channelsDataPointer f)
          = unat channelsMetaPointer + LdFileChannelMeta_Size * length (Channels f)
        \<and> unat (ChannelsDataPointer (File_head f)) = unat (channelsDataPointer f))"
proof (intro conjI impI)
  show "unat eventPointer = LdFileHead_Size"
    "unat venuePointer = unat eventPointer + LdFileEvent_Size"
    "unat vehiclePointer = unat venuePointer + LdFileVenue_Size"
    "unat channelsMetaPointer = unat vehiclePointer + LdFileVehicle_Size"
    by (simp_all add: pointers sizes)
  show "channelsDataPointer f - channelsMetaPointer
       = channelMetaSize * of_nat (length (Channels f))"
    by (simp add: channelsDataPointer_def)
  show "unat (EventPointer (File_head f)) = unat eventPointer"
    "unat (ChannelsMetaPointer (File_head f)) = unat channelsMetaPointer"
    "unat (VenuePointer (File_event f)) = unat venuePointer"
    by (simp_all add: File_head_def File_event_def Let_def pointers)
  show "ChannelsDataPointer (File_head f) = ucast (channelsDataPointer f)"
    by (simp add: File_head_def Let_def)
next
  assume "unat channelsMetaPointer + LdFileChannelMeta_Size * length (Channels f) < 2 ^ 32"
  then have k: "slot (length (Channels f)) < 2 ^ 32"
    by (simp add: slot_def)
  then have "slot (length (Channels f)) < 2 ^ 64"
    by simp
  then have dp: "unat (channelsDataPointer f) = slot (length (Channels f))"
    by (rule unat_channelsDataPointer)
  then show "unat (channelsDataPointer f)
          = unat channelsMetaPointer + LdFileChannelMeta_Size * length (Channels f)"
    by (simp add: slot_def)
  have "unat (ucast (channelsDataPointer f) :: 32 word) = unat (channelsDataPointer f)"
    using k by (simp add: unsigned_ucast_eq take_bit_eq_mod dp)
  then show "unat (ChannelsDataPointer (File_head f)) = unat (channelsDataPointer f)"
    by (simp add: File_head_def Let_def)
qed

theorem offsets_cumulative_witness:
  "unat channelsMetaPointer + LdFileChannelMeta_Size * length (Channels two_channels) < 2 ^ 32
   \<and> unat (ChannelsDataPointer (File_head two_channels)) = 4524
   \<and> unat (channelsDataPointer two_channels) = 4524
   \<and> unat (VenuePointer (File_event two_channels)) = 2916"
proof -
  have h: "unat channelsMetaPointer + LdFileChannelMeta_Size * length (Channels two_channels)
             < 2 ^ 32"
    by (simp add: Channels_two_channels pointers sizes)
  note t = offsets_cumulative [of two_channels]
  from t h have "unat (channelsDataPointer two_channels)
          = unat channelsMetaPointer + LdFileChannelMeta_Size * length (Channels two_channels)"
    and "unat (ChannelsDataPointer (File_head two_channels))
          = unat (channelsDataPointer two_channels)"
    by blast+
  moreover from t have "unat (VenuePointer (File_event two_channels)) = unat venuePointer"
    by blast
  ultimately show ?thesis
    using h by (simp add: Channels_two_channels pointers sizes)
qed

text \<open>
  Claim C4 as stated fails for 34636799 channels: the data offset is 4294967352, and the
  32-bit field of the header holds 56.
\<close>

theorem offsets_not_embedded_counterexample:
  "length (Channels crowded) = 34636799
   \<and> unat (channelsDataPointer crowded) = 4294967352
   \<and> unat (ChannelsDataPointer (File_head crowded)) = 56"
  by (simp add: crowded_def session_def channelsDataPointer_def pointers File_head_def Let_def)

section \<open>Text fields\<close>

text \<open>
  Claim C5. Every text field is a zeroed array of its capacity \<open>C\<close> into which the string
  is copied: a string shorter than \<open>C\<close> is stored left-aligned and followed by zeros up
  to \<open>C\<close>; a string of length \<open>C\<close> or more is cut to its first \<open>C\<close> bytes, with
  no padding. This holds for the date, time, driver, vehicle, venue and short comment of
  the header, the three texts of the event, the venue name, the three texts of the
  vehicle, and the name, short name and unit of every channel-metadata record.
\<close>

theorem text_fields_left_aligned:
  "copy (zeros C) s =
     (if length s < C then string_bytes s @ zeros (C - length s) else take C (string_bytes s))
   \<and> length (copy (zeros C) s) = C
   \<and> Head_Date (File_head f) = copy (zeros 16) (Format_02_01_2006 (Time f))
   \<and> Head_Time (File_head f) = copy (zeros 16) (Format_15_04_05 (Time f))
   \<and> Head_Driver (File_head f) = copy (zeros 64) (Driver f)
   \<and> Head_Vehicle (File_head f) = copy (zeros 64) (Vehicle f)
   \<and> Head_Venue (File_head f) = copy (zeros 64) (Venue f)
   \<and> Head_ShortComment (File_head f) = copy (zeros 64) (ShortComment f)
   \<and> Event_Name (File_event f) = copy (zeros 64) (EventName f)
   \<and> Event_Session (File_event f) = copy (zeros 64) (EventSession f)
   \<and> Event_Comment (File_event f) = copy (zeros 1024) (EventComment f)
   \<and> Venue_Name (File_venue f) = copy (zeros 64) (Venue f)
   \<and> Vehicle_Id (File_vehicle f) = copy (zeros 64) (VehicleId f)
   \<and> Vehicle_Type (File_vehicle f) = copy (zeros 32) (VehicleType f)
   \<and> Vehicle_Comment (File_vehicle f) = copy (zeros 32) (VehicleComment f)
   \<and> Meta_Name (channelMeta T c d n k mp dp) = copy (zeros 32) (Name c)
   \<and> Meta_ShortName (channelMeta T c d n k mp dp) = copy (zeros 8) (ShortName c)
   \<and> Meta_Unit (channelMeta T c d n k mp dp) = copy (zeros 12) (Unit c)"
  by (simp add: copy_law File_head_def File_event_def File_venue_def File_vehicle_def
      channelMeta_def Let_def)

text \<open>
  A driver name of 100 characters is stored as its first 64 bytes; a vehicle name of 12
  characters is followed by 52 zeros.
\<close>

theorem text_fields_left_aligned_witness:
  "Head_Driver (File_head (session\<lparr>Driver := replicate 100 CHR ''a''\<rparr>)) = replicate 64 0x61
   \<and> Head_Vehicle (File_head session)
       = [0x52, 0x61, 0x63, 0x65, 0x20, 0x43, 0x61, 0x72, 0x20, 0x23, 0x34, 0x32]
         @ replicate 52 0"
proof -
  let ?f = "session\<lparr>Driver := replicate 100 CHR ''a''\<rparr>"
  have "Head_Driver (File_head ?f) = copy (zeros 64) (Driver ?f)"
    by (rule text_fields_left_aligned [of 64 "[]" ?f, THEN conjunct2, THEN conjunct2,
          THEN conjunct2, THEN conjunct2, THEN conjunct1])
  moreover have "copy (zeros 64) (replicate 100 CHR ''a'')
      = (if length (replicate 100 CHR ''a'') < 64
         then string_bytes (replicate 100 CHR ''a'') @ zeros (64 - length (replicate 100 CHR ''a''))
         else take 64 (string_bytes (replicate 100 CHR ''a'')))"
    by (rule text_fields_left_aligned [of 64 "replicate 100 CHR ''a''", THEN conjunct1])
  moreover have "Head_Vehicle (File_head session) = copy (zeros 64) (Vehicle session)"
    by (rule text_fields_left_aligned [of 64 "[]" session, THEN conjunct2, THEN conjunct2,
          THEN conjunct2, THEN conjunct2, THEN conjunct2, THEN conjunct1])
  moreover have "copy (zeros 64) ''Race Car #42''
      = (if length ''Race Car #42'' < 64
         then string_bytes ''Race Car #42'' @ zeros (64 - length ''Race Car #42'')
         else take 64 (string_bytes ''Race Car #42''))"
    by (rule text_fields_left_aligned [of 64 "''Race Car #42''", THEN conjunct1])
  ultimately show ?thesis
    by (simp add: session_def string_bytes_def zeros_def)
qed

section \<open>The data types\<close>

text \<open>
  Claim C6. The registry holds (7, 4) for \<open>float32\<close>, (3, 2) for \<open>int16\<close>, (5, 4) for
  \<open>int32\<close> and (7, 2) for \<open>float16\<close>; no type argument of \<open>Channel.Write\<close> selects the
  last. The record that \<open>Channel.Write\<close> builds carries the pair of its type argument,
  the loop of \<open>File.Write\<close> calls it with the type argument of the element, and the
  record is what it passes to \<open>binary.Write\<close>. In the written file (at most 65536
  elements, none a nil channel or a channel with nil data, the end below \<open>2 ^ 63\<close>) the
  type and width fields of record \<open>j\<close> are those of the element's type, and zero for an
  element that is no channel.
\<close>

theorem data_type_by_element_type:
  "DataTypeFloat32 = \<lparr>DataType = 7, DataTypeLength = 4\<rparr>
   \<and> DataTypeInt16 = \<lparr>DataType = 3, DataTypeLength = 2\<rparr>
   \<and> DataTypeInt32 = \<lparr>DataType = 5, DataTypeLength = 4\<rparr>
   \<and> DataTypeFloat16 = \<lparr>DataType = 7, DataTypeLength = 2\<rparr>
   \<and> Channel_dataType T \<noteq> DataTypeFloat16
   \<and> (Meta_DataType (channelMeta T c d n k mp dp),
       Meta_DataTypeLength (channelMeta T c d n k mp dp))
       = (case T of T_float32 \<Rightarrow> (7, 4) | T_int16 \<Rightarrow> (3, 2) | T_int32 \<Rightarrow> (5, 4))
   \<and> element_Write (Float32Channel a) fd i k mp dp
       = Channel_Write T_float32 le32 a fd (of_nat i) k mp dp
   \<and> element_Write (Int16Channel b) fd i k mp dp
       = Channel_Write T_int16 le16 b fd (of_nat i) k mp dp
   \<and> element_Write (Int32Channel a) fd i k mp dp
       = Channel_Write T_int32 le32 a fd (of_nat i) k mp dp
   \<and> (Data c = Some d \<longrightarrow>
        (\<exists>o1 o2 o3 o4.
           history (snd (Channel_Write T put (Some c) fd n k mp dp))
             = history fd @ [Seek_call (sint (currentMetaPointer n mp)) o1,
                             Write_call (encode_meta (channelMeta T c d n k mp dp)) o2,
                             Seek_call (sint dp) o3,
                             Write_call (concat (map put d)) o4]))
   \<and> ((\<forall>e\<in>set (Channels f). sound e) \<and> length (Channels f) \<le> 65536
        \<and> output_end f < 2 ^ 63 \<and> j < length (Channels f) \<longrightarrow>
        read_at (snd (File_Write f created)) (slot j + Meta_DataType_offset) 4
          = (case Channels f ! j of Float32Channel _ \<Rightarrow> le16 7 @ le16 4
             | Int16Channel _ \<Rightarrow> le16 3 @ le16 2
             | Int32Channel _ \<Rightarrow> le16 5 @ le16 4
             | Other \<Rightarrow> zeros 4))"
proof (intro conjI impI)
  show "DataTypeFloat32 = \<lparr>DataType = 7, DataTypeLength = 4\<rparr>"
    "DataTypeInt16 = \<lparr>DataType = 3, DataTypeLength = 2\<rparr>"
    "DataTypeInt32 = \<lparr>DataType = 5, DataTypeLength = 4\<rparr>"
    "DataTypeFloat16 = \<lparr>DataType = 7, DataTypeLength = 2\<rparr>"
    by (simp_all add: DataTypeFloat32_def DataTypeInt16_def DataTypeInt32_def
        DataTypeFloat16_def)
  show "Channel_dataType T \<noteq> DataTypeFloat16"
    by (cases T)
      (simp_all add: Channel_dataType_def DataTypeFloat32_def DataTypeInt16_def
        DataTypeInt32_def DataTypeFloat16_def)
  show "(Meta_DataType (channelMeta T c d n k mp dp),
       Meta_DataTypeLength (channelMeta T c d n k mp dp))
       = (case T of T_float32 \<Rightarrow> (7, 4) | T_int16 \<Rightarrow> (3, 2) | T_int32 \<Rightarrow> (5, 4))"
    by (cases T)
      (simp_all add: channelMeta_def Let_def Channel_dataType_def DataTypeFloat32_def
        DataTypeInt16_def DataTypeInt32_def)
  show "element_Write (Float32Channel a) fd i k mp dp
       = Channel_Write T_float32 le32 a fd (of_nat i) k mp dp"
    "element_Write (Int16Channel b) fd i k mp dp
       = Channel_Write T_int16 le16 b fd (of_nat i) k mp dp"
    "element_Write (Int32Channel a) fd i k mp dp
       = Channel_Write T_int32 le32 a fd (of_nat i) k mp dp"
    by (simp_all add: element_Write_def)
next
  assume "Data c = Some d"
  then show "\<exists>o1 o2 o3 o4.
           history (snd (Channel_Write T put (Some c) fd n k mp dp))
             = history fd @ [Seek_call (sint (currentMetaPointer n mp)) o1,
                             Write_call (encode_meta (channelMeta T c d n k mp dp)) o2,
                             Seek_call (sint dp) o3,
                             Write_call (concat (map put d)) o4]"
    by (rule Channel_Write_history)
next
  assume a: "(\<forall>e\<in>set (Channels f). sound e) \<and> length (Channels f) \<le> 65536
        \<and> output_end f < 2 ^ 63 \<and> j < length (Channels f)"
  then have s: "\<forall>e\<in>set (Channels f). sound e" and k: "length (Channels f) \<le> 65536"
    and fits: "output_end f < 2 ^ 63" and j: "j < length (Channels f)"
    by blast+
  show "read_at (snd (File_Write f created)) (slot j + Meta_DataType_offset) 4
          = (case Channels f ! j of Float32Channel _ \<Rightarrow> le16 7 @ le16 4
             | Int16Channel _ \<Rightarrow> le16 3 @ le16 2
             | Int32Channel _ \<Rightarrow> le16 5 @ le16 4
             | Other \<Rightarrow> zeros 4)"
  proof (cases "writable (Channels f ! j)")
    case True
    with s k fits j obtain m where m:
      "element_meta (Channels f ! j) (of_nat j) (of_nat (length (Channels f)))
         channelsMetaPointer (channelsDataPointer f + of_nat (data_before (Channels f) j)) = Some m"
      and r: "read_at (snd (File_Write f created)) (slot j) 124 = encode_meta m"
      by (rule File_Write_slot)
    have "read_at (snd (File_Write f created)) (slot j + Meta_DataType_offset) 4
            = take 4 (drop Meta_DataType_offset (encode_meta m))"
      using r by (rule read_at_sub) (simp add: Meta_DataType_offset_def)
    then show ?thesis
      by (simp only: encode_meta_DataType [OF m])
  next
    case False
    have "sound (Channels f ! j)"
      using s j by simp
    then have o: "Channels f ! j = Other"
      using False by (rule sound_not_writable)
    have "read_at (snd (File_Write f created)) (slot j) 124 = zeros 124"
      using k fits j False by (rule File_Write_Other_slot)
    then have "read_at (snd (File_Write f created)) (slot j + Meta_DataType_offset) 4
            = take 4 (drop Meta_DataType_offset (zeros 124))"
      by (rule read_at_sub) (simp add: Meta_DataType_offset_def)
    then show ?thesis
      by (simp add: o zeros_def Meta_DataType_offset_def)
  qed
qed

theorem data_type_by_element_type_witness:
  "list_all sound (Channels two_channels) \<and> length (Channels two_channels) \<le> 65536
   \<and> output_end two_channels < 2 ^ 63 \<and> 1 < length (Channels two_channels)
   \<and> Data rpm = Some [800, 1200]
   \<and> read_at (snd (File_Write two_channels created)) (slot 1 + Meta_DataType_offset) 4
       = [3, 0, 2, 0]"
proof -
  have h: "(\<forall>e\<in>set (Channels two_channels). sound e) \<and> length (Channels two_channels) \<le> 65536
        \<and> output_end two_channels < 2 ^ 63 \<and> 1 < length (Channels two_channels)"
    by (simp add: Channels_two_channels sound_examples output_end_two_channels)
  have "read_at (snd (File_Write two_channels created)) (slot 1 + Meta_DataType_offset) 4
          = (case Channels two_channels ! 1 of Float32Channel _ \<Rightarrow> le16 7 @ le16 4
             | Int16Channel _ \<Rightarrow> le16 3 @ le16 2
             | Int32Channel _ \<Rightarrow> le16 5 @ le16 4
             | Other \<Rightarrow> zeros 4)"
    using data_type_by_element_type
      [of T_int16 rpm "[]" 0 0 0 0 None created 0 None le16 two_channels 1] h
    by blast
  then have "read_at (snd (File_Write two_channels created)) (slot 1 + Meta_DataType_offset) 4
       = [3, 0, 2, 0]"
    by (simp add: Channels_two_channels le16_def)
  moreover note Data_examples(2)
  moreover from h have "\<forall>e\<in>set (Channels two_channels). sound e"
    "length (Channels two_channels) \<le> 65536" "output_end two_channels < 2 ^ 63"
    "1 < length (Channels two_channels)"
    by blast+
  ultimately show ?thesis
    by (simp only: list_all_iff simp_thms)
qed

section \<open>No channels\<close>

text \<open>
  Claim C7. For a file without channels written to a new file, \<open>File.Write\<close> returns; the
  output is the header, the event, the venue and the vehicle records one after the other
  and nothing else, so its size is the sum of the four sizes; the header's channel count
  is 0; the data offset equals the metadata offset; and the only calls made are the four
  writes and the three seeks before the loop, so the loop body never ran.
\<close>

theorem no_channels:
  assumes "Channels f = []"
  shows "fst (File_Write f created) = Inr ()
   \<and> extent (snd (File_Write f created))
       = LdFileHead_Size + LdFileEvent_Size + LdFileVenue_Size + LdFileVehicle_Size
   \<and> read_at (snd (File_Write f created)) 0 (extent (snd (File_Write f created)))
       = encode_head (File_head f) @ encode_event (File_event f)
         @ encode_venue (File_venue f) @ encode_vehicle (File_vehicle f)
   \<and> ChannelsCount (File_head f) = 0
   \<and> channelsDataPointer f = channelsMetaPointer
   \<and> history (snd (File_Write f created))
       = [Write_call (encode_head (File_head f)) True,
          Seek_call (sint eventPointer) True, Write_call (encode_event (File_event f)) True,
          Seek_call (sint venuePointer) True, Write_call (encode_venue (File_venue f)) True,
          Seek_call (sint vehiclePointer) True,
          Write_call (encode_vehicle (File_vehicle f)) True]"
proof -
  have w: "File_Write f created = (Inr (), leading f created)"
    using assms by (simp add: File_Write_leading)
  have "read_at (leading f created) 0 4276 = leading_bytes f"
    by (rule read_at_eq) (simp_all add: length_leading_bytes contents_leading)
  then show ?thesis
    using assms
    by (simp add: w extent_leading history_leading sizes leading_bytes_def sint_pointers
        File_head_def channelsDataPointer_def Let_def)
qed

theorem no_channels_witness:
  "Channels session = []
   \<and> fst (File_Write session created) = Inr ()
   \<and> extent (snd (File_Write session created)) = 4276
   \<and> length (history (snd (File_Write session created))) = 7"
proof -
  have h: "Channels session = []"
    by (simp add: session_def)
  show ?thesis
    using no_channels [OF h] h by (simp add: sizes)
qed

section \<open>The scaling parameters\<close>

text \<open>
  Claim C8. Whatever the channel, its data, its index, the count and the pointers, the
  record that \<open>Channel.Write\<close> builds has shift 0, multiplier 1, scale 1 and decimal
  places 0, and this record is what it passes to \<open>binary.Write\<close>. In the written file (at
  most 65536 elements, none a nil channel or a channel with nil data, the end below
  \<open>2 ^ 63\<close>) the four fields of every channel's record are 0, 1, 1, 0.
\<close>

theorem scaling_always_default:
  "Shift (channelMeta T c d n k mp dp) = 0
   \<and> Mul (channelMeta T c d n k mp dp) = 1
   \<and> Scale (channelMeta T c d n k mp dp) = 1
   \<and> DecPlaces (channelMeta T c d n k mp dp) = 0
   \<and> (Data c = Some d \<longrightarrow>
        (\<exists>o1 o2 o3 o4.
           history (snd (Channel_Write T put (Some c) fd n k mp dp))
             = history fd @ [Seek_call (sint (currentMetaPointer n mp)) o1,
                             Write_call (encode_meta (channelMeta T c d n k mp dp)) o2,
                             Seek_call (sint dp) o3,
                             Write_call (concat (map put d)) o4]))
   \<and> ((\<forall>e\<in>set (Channels f). sound e) \<and> length (Channels f) \<le> 65536
        \<and> output_end f < 2 ^ 63 \<and> i < length (Channels f) \<and> writable (Channels f ! i) \<longrightarrow>
        read_at (snd (File_Write f created)) (slot i + Meta_Shift_offset) 8
          = le16 0 @ le16 1 @ le16 1 @ le16 0)"
proof (intro conjI impI)
  show "Shift (channelMeta T c d n k mp dp) = 0" "Mul (channelMeta T c d n k mp dp) = 1"
    "Scale (channelMeta T c d n k mp dp) = 1" "DecPlaces (channelMeta T c d n k mp dp) = 0"
    by (simp_all add: channelMeta_scaling)
next
  assume "Data c = Some d"
  then show "\<exists>o1 o2 o3 o4.
           history (snd (Channel_Write T put (Some c) fd n k mp dp))
             = history fd @ [Seek_call (sint (currentMetaPointer n mp)) o1,
                             Write_call (encode_meta (channelMeta T c d n k mp dp)) o2,
                             Seek_call (sint dp) o3,
                             Write_call (concat (map put d)) o4]"
    by (rule Channel_Write_history)
next
  assume a: "(\<forall>e\<in>set (Channels f). sound e) \<and> length (Channels f) \<le> 65536
        \<and> output_end f < 2 ^ 63 \<and> i < length (Channels f) \<and> writable (Channels f ! i)"
  then obtain m where m:
    "element_meta (Channels f ! i) (of_nat i) (of_nat (length (Channels f)))
       channelsMetaPointer (channelsDataPointer f + of_nat (data_before (Channels f) i)) = Some m"
    and r: "read_at (snd (File_Write f created)) (slot i) 124 = encode_meta m"
    using File_Write_slot [of f i] by blast
  have "read_at (snd (File_Write f created)) (slot i + Meta_Shift_offset) 8
          = take 8 (drop Meta_Shift_offset (encode_meta m))"
    using r by (rule read_at_sub) (simp add: Meta_Shift_offset_def)
  also have "\<dots> = [0, 0, 1, 0, 1, 0, 0, 0]"
    using element_meta_scaling [OF m] by (simp add: Meta_Shift_offset_def)
  finally show "read_at (snd (File_Write f created)) (slot i + Meta_Shift_offset) 8
          = le16 0 @ le16 1 @ le16 1 @ le16 0"
    by (simp add: le16_def)
qed

theorem scaling_always_default_witness:
  "list_all sound (Channels two_channels) \<and> length (Channels two_channels) \<le> 65536
   \<and> output_end two_channels < 2 ^ 63 \<and> 0 < length (Channels two_channels)
   \<and> writable (Channels two_channels ! 0)
   \<and> Data speed = Some [0, 0x41280000, 0x41CA6666]
   \<and> read_at (snd (File_Write two_channels created)) (slot 0 + Meta_Shift_offset) 8
       = [0, 0, 1, 0, 1, 0, 0, 0]"
proof -
  have h: "(\<forall>e\<in>set (Channels two_channels). sound e) \<and> length (Channels two_channels) \<le> 65536
        \<and> output_end two_channels < 2 ^ 63 \<and> 0 < length (Channels two_channels)
        \<and> writable (Channels two_channels ! 0)"
    by (simp add: Channels_two_channels sound_examples output_end_two_channels)
  have "read_at (snd (File_Write two_channels created)) (slot 0 + Meta_Shift_offset) 8
          = le16 0 @ le16 1 @ le16 1 @ le16 0"
    using scaling_always_default [of T_float32 speed "[]" 0 0 0 0 le32 created two_channels 0] h
    by blast
  then have "read_at (snd (File_Write two_channels created)) (slot 0 + Meta_Shift_offset) 8
       = [0, 0, 1, 0, 1, 0, 0, 0]"
    by (simp add: le16_def)
  moreover note Data_examples(1)
  moreover from h have "\<forall>e\<in>set (Channels two_channels). sound e"
    "length (Channels two_channels) \<le> 65536" "output_end two_channels < 2 ^ 63"
    "0 < length (Channels two_channels)" "writable (Channels two_channels ! 0)"
    by blast+
  ultimately show ?thesis
    by (simp only: list_all_iff simp_thms)
qed

section \<open>Elements that are no channels\<close>

text \<open>
  Claim C9, amended. \<open>AddChannels\<close> appends whatever it is given. For an element that
  is no pointer to a channel the loop body makes no call on the descriptor and leaves the
  running data pointer as it is. The header's count and the data offset are computed from
  the number of all elements. In the written file of at most 65536 elements (its end
  below \<open>2 ^ 63\<close>) the 124 bytes at the offset of such an element's record are never
  written (they read as zero); and when no element is a nil channel or a channel with nil
  data, \<open>File.Write\<close> returns and every channel's record stands at the offset of its
  own index, carrying that index in its identifier.
\<close>

theorem strangers_skipped:
  "Channels (AddChannels g cs) = Channels g @ cs
   \<and> element_Write Other fd n k mp dp = (Inr dp, fd)
   \<and> ChannelsCount (File_head f) = of_nat (length (Channels f))
   \<and> channelsDataPointer f
       = channelsMetaPointer + channelMetaSize * of_nat (length (Channels f))
   \<and> (length (Channels f) \<le> 65536 \<and> output_end f < 2 ^ 63
        \<and> i < length (Channels f) \<and> Channels f ! i = Other \<longrightarrow>
        read_at (snd (File_Write f created)) (slot i) LdFileChannelMeta_Size
          = zeros LdFileChannelMeta_Size)
   \<and> ((\<forall>e\<in>set (Channels f). sound e) \<and> length (Channels f) \<le> 65536
        \<and> output_end f < 2 ^ 63 \<and> j < length (Channels f) \<and> writable (Channels f ! j) \<longrightarrow>
        fst (File_Write f created) = Inr ()
        \<and> (\<exists>m. read_at (snd (File_Write f created)) (slot j) LdFileChannelMeta_Size
                   = encode_meta m
                 \<and> ChannelId m = 0x2EE1 + of_nat j))"
proof (intro conjI impI)
  show "Channels (AddChannels g cs) = Channels g @ cs"
    by (simp add: AddChannels_def)
  show "element_Write Other fd n k mp dp = (Inr dp, fd)"
    by (simp add: element_Write_def)
  show "ChannelsCount (File_head f) = of_nat (length (Channels f))"
    by (simp add: File_head_def Let_def)
  show "channelsDataPointer f
       = channelsMetaPointer + channelMetaSize * of_nat (length (Channels f))"
    by (simp add: channelsDataPointer_def)
next
  assume "length (Channels f) \<le> 65536 \<and> output_end f < 2 ^ 63
        \<and> i < length (Channels f) \<and> Channels f ! i = Other"
  then have k: "length (Channels f) \<le> 65536"
    and fits: "output_end f < 2 ^ 63" and i: "i < length (Channels f)"
    and o: "Channels f ! i = Other"
    by blast+
  have "\<not> writable (Channels f ! i)"
    by (simp add: o)
  with k fits i have "read_at (snd (File_Write f created)) (slot i) 124 = zeros 124"
    by (rule File_Write_Other_slot)
  then show "read_at (snd (File_Write f created)) (slot i) LdFileChannelMeta_Size
            = zeros LdFileChannelMeta_Size"
    by (simp add: sizes)
next
  assume a: "(\<forall>e\<in>set (Channels f). sound e) \<and> length (Channels f) \<le> 65536
        \<and> output_end f < 2 ^ 63 \<and> j < length (Channels f) \<and> writable (Channels f ! j)"
  then have s: "\<forall>e\<in>set (Channels f). sound e" and k: "length (Channels f) \<le> 65536"
    and fits: "output_end f < 2 ^ 63" and j: "j < length (Channels f)"
    and w: "writable (Channels f ! j)"
    by blast+
  show "fst (File_Write f created) = Inr ()"
    using s by (rule File_Write_returns)
  from s k fits j w obtain m where m:
    "element_meta (Channels f ! j) (of_nat j) (of_nat (length (Channels f)))
       channelsMetaPointer (channelsDataPointer f + of_nat (data_before (Channels f) j)) = Some m"
    and r: "read_at (snd (File_Write f created)) (slot j) 124 = encode_meta m"
    by (rule File_Write_slot)
  have "read_at (snd (File_Write f created)) (slot j) LdFileChannelMeta_Size = encode_meta m"
    using r by (simp add: sizes)
  moreover have "ChannelId m = 0x2EE1 + of_nat j"
    using m by (rule element_meta_ChannelId)
  ultimately show "\<exists>m. read_at (snd (File_Write f created)) (slot j) LdFileChannelMeta_Size
                    = encode_meta m
                  \<and> ChannelId m = 0x2EE1 + of_nat j"
    by blast
qed

text \<open>
  A float channel, a stranger and an integer channel: the count is 3, the second slot is
  empty, and the third slot holds the record with identifier \<open>0x2EE1 + 2\<close>.
\<close>

theorem strangers_skipped_witness:
  "list_all sound (Channels with_stranger) \<and> length (Channels with_stranger) \<le> 65536
   \<and> output_end with_stranger < 2 ^ 63 \<and> 1 < length (Channels with_stranger)
   \<and> Channels with_stranger ! 1 = Other
   \<and> 2 < length (Channels with_stranger) \<and> writable (Channels with_stranger ! 2)
   \<and> fst (File_Write with_stranger created) = Inr ()
   \<and> read_at (snd (File_Write with_stranger created)) (slot 1) LdFileChannelMeta_Size
       = zeros LdFileChannelMeta_Size
   \<and> (\<exists>m. read_at (snd (File_Write with_stranger created)) (slot 2) LdFileChannelMeta_Size
              = encode_meta m
          \<and> ChannelId m = 0x2EE3)
   \<and> ChannelsCount (File_head with_stranger) = 3"
proof -
  have h: "length (Channels with_stranger) \<le> 65536
        \<and> output_end with_stranger < 2 ^ 63 \<and> 1 < length (Channels with_stranger)
        \<and> Channels with_stranger ! 1 = Other"
    by (simp add: Channels_with_stranger output_end_with_stranger)
  have h2: "(\<forall>e\<in>set (Channels with_stranger). sound e)
        \<and> length (Channels with_stranger) \<le> 65536
        \<and> output_end with_stranger < 2 ^ 63
        \<and> 2 < length (Channels with_stranger) \<and> writable (Channels with_stranger ! 2)"
    by (simp add: Channels_with_stranger sound_examples output_end_with_stranger)
  note t = strangers_skipped [of session "[]" created 0 0 0 0 with_stranger 1 2]
  from t h have 2: "read_at (snd (File_Write with_stranger created)) (slot 1)
       LdFileChannelMeta_Size = zeros LdFileChannelMeta_Size"
    by blast
  from t h2 have 1: "fst (File_Write with_stranger created) = Inr ()"
    by blast
  from t h2 have "\<exists>m. read_at (snd (File_Write with_stranger created)) (slot 2)
              LdFileChannelMeta_Size = encode_meta m
          \<and> ChannelId m = 0x2EE1 + of_nat 2"
    by blast
  then have 3: "\<exists>m. read_at (snd (File_Write with_stranger created)) (slot 2)
              LdFileChannelMeta_Size = encode_meta m
          \<and> ChannelId m = 0x2EE3"
    by simp
  from t have 4: "ChannelsCount (File_head with_stranger) = 3"
    by (simp add: Channels_with_stranger)
  from h2 have "\<forall>e\<in>set (Channels with_stranger). sound e"
    "length (Channels with_stranger) \<le> 65536" "output_end with_stranger < 2 ^ 63"
    "2 < length (Channels with_stranger)"
    "writable (Channels with_stranger ! 2)"
    by blast+
  moreover from h have "1 < length (Channels with_stranger)"
    "Channels with_stranger ! 1 = Other"
    by blast+
  ultimately show ?thesis
    using 1 2 3 4 by (simp only: list_all_iff simp_thms)
qed

text \<open>
  Claim C9 as stated fails for 65536 elements that are no channels followed by one
  channel. The channel's index 65536 is cut to 0 in 16 bits, so its record is written at
  the offset of record 0, the slot of the first stranger: the 124 bytes there are that
  record, and its identifier bytes are \<open>0xE1, 0x2E\<close>.
\<close>

theorem stranger_slot_written_counterexample:
  "length (Channels late_channel) = 65537
   \<and> Channels late_channel ! 0 = Other
   \<and> read_at (snd (File_Write late_channel created)) (slot 0) LdFileChannelMeta_Size
       = encode_meta (channelMeta T_float32 speed [0, 0x41280000, 0x41CA6666] 0 65537
           channelsMetaPointer (channelsDataPointer late_channel))
   \<and> read_at (snd (File_Write late_channel created)) (slot 0 + Meta_ChannelId_offset) 2
       = [0xE1, 0x2E]"
proof (intro conjI)
  show "length (Channels late_channel) = 65537"
    by (simp add: Channels_late_channel)
  show "Channels late_channel ! 0 = Other"
    by (simp add: Channels_late_channel nth_append)
  show "read_at (snd (File_Write late_channel created)) (slot 0) LdFileChannelMeta_Size
       = encode_meta (channelMeta T_float32 speed [0, 0x41280000, 0x41CA6666] 0 65537
           channelsMetaPointer (channelsDataPointer late_channel))"
    using late_channel_record by (simp add: sizes)
  have "read_at (snd (File_Write late_channel created)) (slot 0 + Meta_ChannelId_offset) 2
          = take 2 (drop Meta_ChannelId_offset
              (encode_meta (channelMeta T_float32 speed [0, 0x41280000, 0x41CA6666] 0 65537
                 channelsMetaPointer (channelsDataPointer late_channel))))"
    using late_channel_record by (rule read_at_sub) (simp add: Meta_ChannelId_offset_def)
  then show "read_at (snd (File_Write late_channel created)) (slot 0 + Meta_ChannelId_offset) 2
       = [0xE1, 0x2E]"
    by (simp only: encode_meta_ChannelId) (simp add: le16_def)
qed

section \<open>The venue name\<close>

text \<open>
  Claim C10. The \<open>Venue\<close> field of the header and the \<open>Name\<close> field of the venue record
  are both the copy of \<open>File.Venue\<close> into a zeroed array of 64 bytes. In the written file
  (its end below \<open>2 ^ 63\<close>) the 64 bytes at the field's offset in the header and the
  64 bytes at the venue pointer are these same bytes.
\<close>

theorem venue_name_twice:
  "Head_Venue (File_head f) = copy (zeros 64) (Venue f)
   \<and> Venue_Name (File_venue f) = copy (zeros 64) (Venue f)
   \<and> (output_end f < 2 ^ 63 \<longrightarrow>
        read_at (snd (File_Write f created)) Head_Venue_offset 64 = copy (zeros 64) (Venue f)
        \<and> read_at (snd (File_Write f created)) (unat venuePointer) 64
            = copy (zeros 64) (Venue f))"
proof (intro conjI impI)
  show 1: "Head_Venue (File_head f) = copy (zeros 64) (Venue f)"
    by (simp add: File_head_def Let_def)
  show 2: "Venue_Name (File_venue f) = copy (zeros 64) (Venue f)"
    by (simp add: File_venue_def Let_def)
  assume fits: "output_end f < 2 ^ 63"
  have "read_at (snd (File_Write f created)) Head_Venue_offset 64
          = take 64 (drop Head_Venue_offset (leading_bytes f))"
    using fits by (rule read_at_leading) (simp add: Head_Venue_offset_def)
  then show "read_at (snd (File_Write f created)) Head_Venue_offset 64
               = copy (zeros 64) (Venue f)"
    by (simp only: leading_bytes_Head_Venue 1)
  have "read_at (snd (File_Write f created)) 2916 64 = take 64 (drop 2916 (leading_bytes f))"
    using fits by (rule read_at_leading) simp
  then show "read_at (snd (File_Write f created)) (unat venuePointer) 64
               = copy (zeros 64) (Venue f)"
    by (simp add: leading_bytes_Venue_Name 2 pointers)
qed

theorem venue_name_twice_witness:
  "output_end two_channels < 2 ^ 63
   \<and> read_at (snd (File_Write two_channels created)) Head_Venue_offset 64
        = string_bytes ''Silverstone Circuit'' @ zeros 45
   \<and> read_at (snd (File_Write two_channels created)) (unat venuePointer) 64
        = string_bytes ''Silverstone Circuit'' @ zeros 45"
proof -
  have fits: "output_end two_channels < 2 ^ 63"
    by (simp add: output_end_two_channels)
  have v: "copy (zeros 64) (Venue two_channels) = string_bytes ''Silverstone Circuit'' @ zeros 45"
    by (simp add: copy_law two_channels_def AddChannels_def session_def)
  from venue_name_twice [of two_channels] fits
  have "read_at (snd (File_Write two_channels created)) Head_Venue_offset 64
          = copy (zeros 64) (Venue two_channels)"
    and "read_at (snd (File_Write two_channels created)) (unat venuePointer) 64
          = copy (zeros 64) (Venue two_channels)"
    by blast+
  then show ?thesis
    using fits by (simp only: v)
qed

end
